theory Spec2Isabelle
  imports Main
begin

section \<open>Python strings\<close>

text \<open>
  A Python \<open>str\<close> is a sequence of code points. The model uses \<^typ>\<open>string\<close> and reads
  each \<^typ>\<open>char\<close> as the code point of the same number, so the strings of the model
  are the Python strings over U+0000 .. U+00FF. The string methods below are Python's,
  restricted to that range.
\<close>

definition isspace_char :: "char \<Rightarrow> bool" where
  \<comment> \<open>\<open>str.isspace\<close> on one code point; also the class \<open>\s\<close> of \<open>re\<close> on \<open>str\<close> patterns\<close>
  "isspace_char c = (let n = (of_char c :: nat) in
     (9 \<le> n \<and> n \<le> 13) \<or> (28 \<le> n \<and> n \<le> 32) \<or> n = 133 \<or> n = 160)"

definition isdecimal_char :: "char \<Rightarrow> bool" where
  \<comment> \<open>the code points that \<open>int()\<close> accepts as digits: \<open>0\<close> .. \<open>9\<close>\<close>
  "isdecimal_char c = (let n = (of_char c :: nat) in 48 \<le> n \<and> n \<le> 57)"

definition isdigit_char :: "char \<Rightarrow> bool" where
  \<comment> \<open>\<open>str.isdigit\<close> on one code point: the decimal digits and the superscripts
      U+00B2, U+00B3, U+00B9\<close>
  "isdigit_char c = (let n = (of_char c :: nat) in
     (48 \<le> n \<and> n \<le> 57) \<or> n = 178 \<or> n = 179 \<or> n = 185)"

definition isdigit :: "string \<Rightarrow> bool" where
  \<comment> \<open>\<open>s.isdigit()\<close>: every character is a digit and there is at least one\<close>
  "isdigit s = (s \<noteq> [] \<and> list_all isdigit_char s)"

definition lower_char :: "char \<Rightarrow> char" where
  "lower_char c = (let n = (of_char c :: nat) in
     if (65 \<le> n \<and> n \<le> 90) \<or> (192 \<le> n \<and> n \<le> 222 \<and> n \<noteq> 215)
     then char_of (n + 32) else c)"

definition lower :: "string \<Rightarrow> string" where
  \<comment> \<open>\<open>s.lower()\<close>\<close>
  "lower s = map lower_char s"

definition strip :: "string \<Rightarrow> string" where
  \<comment> \<open>\<open>s.strip()\<close>: leading and trailing whitespace removed\<close>
  "strip s = rev (dropWhile isspace_char (rev (dropWhile isspace_char s)))"

fun split :: "char \<Rightarrow> string \<Rightarrow> string list" where
  \<comment> \<open>\<open>s.split(sep)\<close> for a separator of one character\<close>
  "split sep [] = [[]]"
| "split sep (c # cs) =
     (if c = sep then [] # split sep cs
      else (c # hd (split sep cs)) # tl (split sep cs))"

definition digit_char :: "nat \<Rightarrow> char" where
  \<comment> \<open>the digit of a number below 10\<close>
  "digit_char d = ''0123456789'' ! d"

fun str_nat :: "nat \<Rightarrow> string" where
  \<comment> \<open>\<open>str(n)\<close> for \<open>n \<ge> 0\<close>\<close>
  "str_nat n = (if n < 10 then [digit_char n]
                else str_nat (n div 10) @ [digit_char (n mod 10)])"

declare str_nat.simps [simp del]

definition str_int :: "int \<Rightarrow> string" where
  \<comment> \<open>\<open>str(i)\<close>\<close>
  "str_int i = (if i < 0 then CHR ''-'' # str_nat (nat (- i)) else str_nat (nat i))"

definition digit_val :: "char \<Rightarrow> nat" where
  "digit_val c = of_char c - 48"

definition py_or :: "string \<Rightarrow> string \<Rightarrow> string" where
  \<comment> \<open>\<open>a or b\<close> on strings: the empty string is false\<close>
  "py_or a b = (if a \<noteq> [] then a else b)"

abbreviation LF :: char where
  "LF \<equiv> CHR 0x0A"

abbreviation CR :: char where
  "CR \<equiv> CHR 0x0D"

abbreviation DQ :: char where
  \<comment> \<open>the double quote\<close>
  "DQ \<equiv> CHR 0x22"

abbreviation SQ :: char where
  \<comment> \<open>the single quote\<close>
  "SQ \<equiv> CHR 0x27"

abbreviation BACKSLASH :: char where
  "BACKSLASH \<equiv> CHR 0x5C"

section \<open>Exceptions, the terminal and the outside world\<close>

datatype exn =
    EOFError           \<comment> \<open>\<open>input()\<close> at the end of standard input\<close>
  | ValueError         \<comment> \<open>\<open>int()\<close> on a string it cannot convert\<close>
  | TypeError          \<comment> \<open>iterating or subscripting a value that does not support it\<close>
  | KeyError           \<comment> \<open>a missing dictionary key\<close>
  | JSONDecodeError    \<comment> \<open>\<open>json.loads\<close> on text that is not JSON\<close>
  | ReError            \<comment> \<open>\<open>re.error\<close>: a bad replacement template\<close>

datatype 'a result = Return 'a | Raise exn

text \<open>
  What the script writes to the terminal. The helpers \<open>print_header\<close>, \<open>print_success\<close>,
  \<open>print_error\<close>, \<open>print_info\<close> and \<open>print_warning\<close> wrap their text in fixed colour
  codes and a fixed glyph; the model keeps the helper as the \<open>style\<close> of the line and
  the text as it was passed.
\<close>

datatype style = Header | Success | Error | Info | Warning | Plain

datatype event =
    Print style string   \<comment> \<open>a \<open>print\<close> through one of the helpers (\<open>Plain\<close>: a bare \<open>print\<close>)\<close>
  | Prompt string        \<comment> \<open>the prompt of an \<open>input\<close> call\<close>
  | Sleep nat            \<comment> \<open>\<open>time.sleep\<close>, in seconds\<close>

text \<open>
  The outcome of \<open>subprocess.run(command, shell=True, check=True, ...)\<close>: the process
  exits with status 0, or \<open>check=True\<close> raises \<open>CalledProcessError\<close> with the exit
  status and both captured streams, or running it raises some other \<open>Exception\<close>, of
  which the script only uses \<open>str(e)\<close>.
\<close>

datatype proc =
    Completed string                   \<comment> \<open>stdout\<close>
  | CalledProcessError int string string  \<comment> \<open>returncode, stdout, stderr\<close>
  | OtherException string              \<comment> \<open>\<open>str(e)\<close>\<close>

text \<open>JSON values as \<open>json.loads\<close> returns them; a number is kept as its literal.\<close>

datatype json =
    JNull | JBool bool | JNum string | JStr string
  | JArr "json list" | JObj "(string \<times> json) list"

text \<open>
  The environment: everything the script calls and does not define.
  \<^item> \<open>sh\<close>: the outcome of a shell command, given the commands run before it;
  \<^item> \<open>json_loads\<close>: \<open>json.loads\<close>;
  \<^item> \<open>py_str\<close>: \<open>str(v)\<close> for a JSON value that is not a string, as an f-string
    formats it;
  \<^item> \<open>expand_template\<close>: \<open>re.sub\<close> on a replacement that contains a backslash: the
    template is refused, or it maps the matched text to what replaces it (the patterns
    of the script have no groups);
  \<^item> \<open>max_str_digits\<close>: the interpreter's limit on the length of a digit string
    that \<open>int()\<close> converts (\<open>sys.get_int_max_str_digits()\<close>; 0 is no limit, which
    is also the behaviour of interpreters that have no such limit).
\<close>

record env =
  sh :: "string list \<Rightarrow> string \<Rightarrow> proc"
  json_loads :: "string \<Rightarrow> json result"
  py_str :: "json \<Rightarrow> string"
  expand_template :: "string \<Rightarrow> (string \<Rightarrow> string) result"
  max_str_digits :: nat

text \<open>
  The state the script acts on: the lines still to be read from standard input, what has
  been written to the terminal, the commands handed to the shell so far, and the file
  \<open>prometheus-values.yaml\<close> of the working directory (\<open>None\<close>: it does not exist;
  when it exists it is a regular text file that can be read and written).
\<close>

record world =
  inputs :: "string list"
  terminal :: "event list"
  cmds :: "string list"
  values_file :: "string option"

type_synonym 'a prog = "world \<Rightarrow> 'a result \<times> world"

definition ret :: "'a \<Rightarrow> 'a prog" where
  "ret a w = (Return a, w)"

definition seq :: "'a prog \<Rightarrow> ('a \<Rightarrow> 'b prog) \<Rightarrow> 'b prog" where
  \<comment> \<open>one statement after another; an exception skips the rest\<close>
  "seq m f w = (case m w of (Return a, w') \<Rightarrow> f a w' | (Raise e, w') \<Rightarrow> (Raise e, w'))"

definition emit :: "event \<Rightarrow> unit prog" where
  "emit e w = (Return (), w\<lparr>terminal := terminal w @ [e]\<rparr>)"

definition print_header :: "string \<Rightarrow> unit prog" where
  "print_header text = emit (Print Header text)"

definition print_success :: "string \<Rightarrow> unit prog" where
  "print_success text = emit (Print Success text)"

definition print_error :: "string \<Rightarrow> unit prog" where
  "print_error text = emit (Print Error text)"

definition print_info :: "string \<Rightarrow> unit prog" where
  "print_info text = emit (Print Info text)"

definition print_warning :: "string \<Rightarrow> unit prog" where
  "print_warning text = emit (Print Warning text)"

definition print :: "string \<Rightarrow> unit prog" where
  "print text = emit (Print Plain text)"

definition input :: "string \<Rightarrow> string prog" where
  \<comment> \<open>\<open>input(prompt)\<close>: writes the prompt, reads one line; \<open>EOFError\<close> when there is none\<close>
  "input prompt w =
     (let w' = w\<lparr>terminal := terminal w @ [Prompt prompt]\<rparr> in
      case inputs w of
        [] \<Rightarrow> (Raise EOFError, w')
      | l # ls \<Rightarrow> (Return l, w'\<lparr>inputs := ls\<rparr>))"

definition py_if :: "bool \<Rightarrow> unit prog \<Rightarrow> unit prog" where
  \<comment> \<open>an \<open>if\<close> without \<open>else\<close>\<close>
  "py_if b m = (if b then m else ret ())"

section \<open>The command runner\<close>

definition subprocess_run :: "env \<Rightarrow> string \<Rightarrow> proc prog" where
  "subprocess_run E command w =
     (Return (sh E (cmds w) command), w\<lparr>cmds := cmds w @ [command]\<rparr>)"

definition run_command :: "env \<Rightarrow> string \<Rightarrow> bool \<Rightarrow> (bool \<times> string) prog" where
  "run_command E command show_output =
     seq (print_info (''Running: '' @ command)) (\<lambda>_.
     seq (subprocess_run E command) (\<lambda>p.
       case p of
         Completed stdout \<Rightarrow>
           seq (py_if (show_output \<and> stdout \<noteq> []) (print stdout)) (\<lambda>_.
           ret (True, stdout))
       | CalledProcessError returncode stdout stderr \<Rightarrow>
           seq (print_error (''Command failed with exit code '' @ str_int returncode)) (\<lambda>_.
           seq (py_if (stderr \<noteq> []) (print_error (''Error: '' @ stderr))) (\<lambda>_.
           seq (py_if (stdout \<noteq> [] \<and> show_output) (print stdout)) (\<lambda>_.
           ret (False, stderr))))
       | OtherException msg \<Rightarrow>
           seq (print_error (''An error occurred: '' @ msg)) (\<lambda>_.
           ret (False, msg))))"

text \<open>The value and the final state of \<open>run_command\<close>, in closed form.\<close>

definition run_result :: "proc \<Rightarrow> bool \<times> string" where
  "run_result p =
     (case p of
        Completed stdout \<Rightarrow> (True, stdout)
      | CalledProcessError returncode stdout stderr \<Rightarrow> (False, stderr)
      | OtherException msg \<Rightarrow> (False, msg))"

definition run_value :: "env \<Rightarrow> string \<Rightarrow> world \<Rightarrow> bool \<times> string" where
  "run_value E command w = run_result (sh E (cmds w) command)"

definition run_report :: "proc \<Rightarrow> bool \<Rightarrow> event list" where
  "run_report p show_output =
     (case p of
        Completed stdout \<Rightarrow>
          (if show_output \<and> stdout \<noteq> [] then [Print Plain stdout] else [])
      | CalledProcessError returncode stdout stderr \<Rightarrow>
          [Print Error (''Command failed with exit code '' @ str_int returncode)]
          @ (if stderr \<noteq> [] then [Print Error (''Error: '' @ stderr)] else [])
          @ (if stdout \<noteq> [] \<and> show_output then [Print Plain stdout] else [])
      | OtherException msg \<Rightarrow> [Print Error (''An error occurred: '' @ msg)])"

definition run_world :: "env \<Rightarrow> string \<Rightarrow> bool \<Rightarrow> world \<Rightarrow> world" where
  "run_world E command show_output w =
     w\<lparr>terminal := terminal w @ [Print Info (''Running: '' @ command)]
                    @ run_report (sh E (cmds w) command) show_output,
       cmds := cmds w @ [command]\<rparr>"


section \<open>Choosing an entry of a numbered list\<close>

definition lift :: "'a result \<Rightarrow> 'a prog" where
  \<comment> \<open>an expression that may raise, as a statement\<close>
  "lift r w = (r, w)"

definition int_of_digits :: "string \<Rightarrow> nat" where
  "int_of_digits s = foldl (\<lambda>a c. 10 * a + digit_val c) 0 s"

definition py_int :: "env \<Rightarrow> string \<Rightarrow> nat result" where
  \<comment> \<open>\<open>int(s)\<close> for a string with \<open>s.isdigit()\<close>, the only strings the script converts:
      \<open>ValueError\<close> on a digit that is not decimal, and on a string longer than the
      interpreter's limit (which applies above 640 digits only)\<close>
  "py_int E s =
     (if s = [] \<or> \<not> list_all isdecimal_char s then Raise ValueError
      else if 0 < max_str_digits E \<and> max_str_digits E < length s \<and> 640 < length s
      then Raise ValueError
      else Return (int_of_digits s))"

text \<open>
  The script has no function for the selection; the same four lines stand in each handler
  (lines 164-167, 288-291, 349-352 and 405-408):
  \<^verbatim>\<open>
  if selection.isdigit() and 1 <= int(selection) <= len(namespaces):
      namespace = namespaces[int(selection) - 1]
  else:
      namespace = selection
  \<close>
\<close>

definition select_entry :: "env \<Rightarrow> string list \<Rightarrow> string \<Rightarrow> string result" where
  "select_entry E namespaces selection =
     (if isdigit selection then
        (case py_int E selection of
           Raise e \<Rightarrow> Raise e
         | Return k \<Rightarrow>
             if 1 \<le> k \<and> k \<le> length namespaces then Return (namespaces ! (k - 1))
             else Return selection)
      else Return selection)"

fun print_numbered :: "nat \<Rightarrow> string list \<Rightarrow> unit prog" where
  \<comment> \<open>\<open>for i, ns in enumerate(namespaces, i): print(f"{i}. {ns}")\<close>\<close>
  "print_numbered i [] = ret ()"
| "print_numbered i (ns # rest) =
     seq (print (str_nat i @ ''. '' @ ns)) (\<lambda>_. print_numbered (Suc i) rest)"

definition GET_NAMESPACES :: string where
  "GET_NAMESPACES =
     ''kubectl get namespaces -o custom-columns=NAME:.metadata.name --no-headers''"

text \<open>
  Listing the namespaces and asking for one: lines 150-169 of \<open>deploy_prometheus\<close>,
  274-293 and 335-354 of \<open>delete_resources\<close>, 391-410 of \<open>check_resource_status\<close>.
  The four copies differ in the two prompts only.
\<close>

definition choose_namespace :: "env \<Rightarrow> string \<Rightarrow> string \<Rightarrow> string prog" where
  "choose_namespace E prompt_selection prompt_name =
     seq (print_info ''Fetching available namespaces...'') (\<lambda>_.
     seq (run_command E GET_NAMESPACES False) (\<lambda>(success, output).
     if success \<and> output \<noteq> [] then
       (let namespaces = split LF (strip output) in
        seq (print_info ''Available namespaces:'') (\<lambda>_.
        seq (print_numbered 1 namespaces) (\<lambda>_.
        seq (input prompt_selection) (\<lambda>selection.
        lift (select_entry E namespaces selection)))))
     else input prompt_name))"

section \<open>The create-namespace handler\<close>

definition create_namespace :: "env \<Rightarrow> bool prog" where
  "create_namespace E =
     seq (print_header ''Creating Kubernetes Namespace'') (\<lambda>_.
     seq (input ''Enter your username or identifier (e.g., 'azni'): '') (\<lambda>username.
     if username = [] then
       seq (print_error ''Username cannot be empty'') (\<lambda>_. ret False)
     else
     seq (input ''Enter namespace purpose (e.g., 'eks', 'prom', 'app'): '') (\<lambda>purpose.
     if purpose = [] then
       seq (print_error ''Purpose cannot be empty'') (\<lambda>_. ret False)
     else
     (let namespace = username @ ''-'' @ purpose in
     seq (print_info (''Generated namespace name: '' @ namespace)) (\<lambda>_.
     seq (input (''Create namespace '' @ [SQ] @ namespace @ [SQ] @ ''? (y/n): '')) (\<lambda>confirm.
     if lower confirm \<noteq> ''y'' then
       seq (print_info ''Namespace creation cancelled'') (\<lambda>_. ret False)
     else
     seq (run_command E (''kubectl create namespace '' @ namespace) True) (\<lambda>(success, _).
     if success then
       seq (print_success (''Successfully created namespace: '' @ namespace)) (\<lambda>_. ret True)
     else
       seq (print_error (''Failed to create namespace: '' @ namespace)) (\<lambda>_.
       ret False))))))))"

section \<open>The status handler\<close>

definition describe_resource :: "env \<Rightarrow> string \<Rightarrow> string \<Rightarrow> string \<Rightarrow> unit prog" where
  \<comment> \<open>the drill-down of the choices 3 to 6: a name, or Enter to skip\<close>
  "describe_resource E prompt command namespace =
     seq (input prompt) (\<lambda>details.
     py_if (details \<noteq> [])
       (seq (run_command E (command @ details @ '' -n '' @ namespace) True) (\<lambda>_. ret ())))"

definition check_resource_status :: "env \<Rightarrow> bool prog" where
  "check_resource_status E =
     seq (print_header ''Resource Status Check'') (\<lambda>_.
     seq (choose_namespace E ([LF] @ ''Enter namespace number or name to check: '')
            ''Enter namespace to check: '') (\<lambda>namespace.
     if namespace = [] then
       seq (print_error ''Namespace cannot be empty'') (\<lambda>_. ret False)
     else
     seq (print_info (''Checking resources in namespace: '' @ namespace)) (\<lambda>_.
     seq (print ([LF] @ ''Select resource type to check:'')) (\<lambda>_.
     seq (print ''1. All resources (summary)'') (\<lambda>_.
     seq (print ''2. Pods'') (\<lambda>_.
     seq (print ''3. Services'') (\<lambda>_.
     seq (print ''4. Deployments'') (\<lambda>_.
     seq (print ''5. Ingresses'') (\<lambda>_.
     seq (print ''6. Helm releases'') (\<lambda>_.
     seq (print ''7. Events (useful for troubleshooting)'') (\<lambda>_.
     seq (input ([LF] @ ''Enter your choice (1-7): '')) (\<lambda>resource_choice.
     seq (
       if resource_choice = ''1'' then
         seq (print_info (''All resources in namespace '' @ [SQ] @ namespace @ [SQ] @ '':'')) (\<lambda>_.
         seq (run_command E (''kubectl get all -n '' @ namespace) True) (\<lambda>_.
         seq (run_command E (''kubectl get ingress -n '' @ namespace) True) (\<lambda>_.
         seq (run_command E (''helm list -n '' @ namespace) True) (\<lambda>_. ret ()))))
       else if resource_choice = ''2'' then
         seq (print_info (''Pods in namespace '' @ [SQ] @ namespace @ [SQ] @ '':'')) (\<lambda>_.
         seq (run_command E (''kubectl get pods -n '' @ namespace) True) (\<lambda>_.
         seq (input ([LF] @ ''Enter pod name to see details (or press Enter to skip): ''))
           (\<lambda>pod_details.
         py_if (pod_details \<noteq> [])
           (seq (run_command E (''kubectl describe pod '' @ pod_details @ '' -n '' @ namespace)
                   True) (\<lambda>_.
            seq (input ([LF] @ ''Do you want to see logs for this pod? (y/n): ''))
              (\<lambda>show_logs.
            py_if (lower show_logs = ''y'')
              (seq (run_command E (''kubectl logs '' @ pod_details @ '' -n '' @ namespace)
                      True) (\<lambda>_. ret ()))))))))
       else if resource_choice = ''3'' then
         seq (print_info (''Services in namespace '' @ [SQ] @ namespace @ [SQ] @ '':'')) (\<lambda>_.
         seq (run_command E (''kubectl get svc -n '' @ namespace) True) (\<lambda>_.
         describe_resource E
           ([LF] @ ''Enter service name to see details (or press Enter to skip): '')
           ''kubectl describe svc '' namespace))
       else if resource_choice = ''4'' then
         seq (print_info (''Deployments in namespace '' @ [SQ] @ namespace @ [SQ] @ '':'')) (\<lambda>_.
         seq (run_command E (''kubectl get deployments -n '' @ namespace) True) (\<lambda>_.
         describe_resource E
           ([LF] @ ''Enter deployment name to see details (or press Enter to skip): '')
           ''kubectl describe deployment '' namespace))
       else if resource_choice = ''5'' then
         seq (print_info (''Ingresses in namespace '' @ [SQ] @ namespace @ [SQ] @ '':'')) (\<lambda>_.
         seq (run_command E (''kubectl get ingress -n '' @ namespace) True) (\<lambda>_.
         describe_resource E
           ([LF] @ ''Enter ingress name to see details (or press Enter to skip): '')
           ''kubectl describe ingress '' namespace))
       else if resource_choice = ''6'' then
         seq (print_info (''Helm releases in namespace '' @ [SQ] @ namespace @ [SQ] @ '':'')) (\<lambda>_.
         seq (run_command E (''helm list -n '' @ namespace) True) (\<lambda>_.
         describe_resource E
           ([LF] @ ''Enter release name to see details (or press Enter to skip): '')
           ''helm status '' namespace))
       else if resource_choice = ''7'' then
         seq (print_info (''Events in namespace '' @ [SQ] @ namespace @ [SQ]
                @ '' (most recent first):'')) (\<lambda>_.
         seq (run_command E
                (''kubectl get events --sort-by=.metadata.creationTimestamp -n '' @ namespace)
                True) (\<lambda>_. ret ()))
       else print_error ''Invalid choice'') (\<lambda>_.
     ret True)))))))))))))"

section \<open>The delete handler\<close>

text \<open>
  What the script does with the value \<open>json.loads\<close> returned: it iterates over it,
  subscripts an element with a string, takes its length and subscripts it with a number.
  Each is Python's operation on the type at hand. The pairs of a \<open>JObj\<close> are the
  items of the dictionary, a key once.
\<close>

definition py_iter :: "json \<Rightarrow> json list result" where
  \<comment> \<open>the elements a \<open>for\<close> loop visits: of a list its elements, of a dictionary its keys,
      of a string its characters; other values are not iterable\<close>
  "py_iter j =
     (case j of
        JArr xs \<Rightarrow> Return xs
      | JObj kvs \<Rightarrow> Return (map (\<lambda>kv. JStr (fst kv)) kvs)
      | JStr s \<Rightarrow> Return (map (\<lambda>c. JStr [c]) s)
      | _ \<Rightarrow> Raise TypeError)"

definition getitem_str :: "json \<Rightarrow> string \<Rightarrow> json result" where
  \<comment> \<open>\<open>j[key]\<close> for a string key: only a dictionary takes one\<close>
  "getitem_str j key =
     (case j of
        JObj kvs \<Rightarrow> (case map_of kvs key of Some v \<Rightarrow> Return v | None \<Rightarrow> Raise KeyError)
      | _ \<Rightarrow> Raise TypeError)"

definition py_len :: "json \<Rightarrow> nat result" where
  "py_len j =
     (case j of
        JArr xs \<Rightarrow> Return (length xs)
      | JObj kvs \<Rightarrow> Return (length kvs)
      | JStr s \<Rightarrow> Return (length s)
      | _ \<Rightarrow> Raise TypeError)"

definition getitem_nat :: "json \<Rightarrow> nat \<Rightarrow> json result" where
  \<comment> \<open>\<open>j[i]\<close> for a number \<open>i\<close> with \<open>0 \<le> i < len(j)\<close>; a dictionary read from
      JSON has string keys only\<close>
  "getitem_nat j i =
     (case j of
        JArr xs \<Rightarrow> Return (xs ! i)
      | JStr s \<Rightarrow> Return (JStr [s ! i])
      | JObj kvs \<Rightarrow> Raise KeyError
      | _ \<Rightarrow> Raise TypeError)"

definition fmt :: "env \<Rightarrow> json \<Rightarrow> string" where
  \<comment> \<open>a value inside an f-string\<close>
  "fmt E j = (case j of JStr s \<Rightarrow> s | _ \<Rightarrow> py_str E j)"

fun print_releases :: "env \<Rightarrow> nat \<Rightarrow> json list \<Rightarrow> unit prog" where
  \<comment> \<open>\<open>for i, release in enumerate(releases, i):
        print(f"{i}. {release['name']} (Chart: {release['chart']})")\<close>\<close>
  "print_releases E i [] = ret ()"
| "print_releases E i (release # rest) =
     seq (lift (getitem_str release ''name'')) (\<lambda>name.
     seq (lift (getitem_str release ''chart'')) (\<lambda>chart.
     seq (print (str_nat i @ ''. '' @ fmt E name @ '' (Chart: '' @ fmt E chart @ '')'')) (\<lambda>_.
     print_releases E (Suc i) rest)))"

definition select_release :: "env \<Rightarrow> json \<Rightarrow> string \<Rightarrow> string result" where
  \<comment> \<open>lines 317-320; the release name as the later f-strings format it\<close>
  "select_release E releases selection =
     (if isdigit selection then
        (case py_int E selection of
           Raise e \<Rightarrow> Raise e
         | Return k \<Rightarrow>
            if 1 \<le> k then
              (case py_len releases of
                 Raise e \<Rightarrow> Raise e
               | Return n \<Rightarrow>
                   if k \<le> n then
                     (case getitem_nat releases (k - 1) of
                        Raise e \<Rightarrow> Raise e
                      | Return release \<Rightarrow>
                         (case getitem_str release ''name'' of
                            Raise e \<Rightarrow> Raise e
                          | Return name \<Rightarrow> Return (fmt E name)))
                   else Return selection)
            else Return selection)
      else Return selection)"

definition try_except :: "'a prog \<Rightarrow> exn \<Rightarrow> 'a prog \<Rightarrow> 'a prog" where
  \<comment> \<open>\<open>try: body except x: handler\<close>\<close>
  "try_except body x handler w =
     (case body w of
        (Raise e, w') \<Rightarrow> if e = x then handler w' else (Raise e, w')
      | (Return a, w') \<Rightarrow> (Return a, w'))"

definition ask_release_name :: "string \<Rightarrow> string prog" where
  \<comment> \<open>lines 322 and 324 (the same statement)\<close>
  "ask_release_name namespace =
     seq (input (''Enter Prometheus release name (default: '' @ namespace @ ''-prom): ''))
       (\<lambda>answer. ret (py_or answer (namespace @ ''-prom'')))"

definition choose_release :: "env \<Rightarrow> string \<Rightarrow> string prog" where
  \<comment> \<open>lines 301-324\<close>
  "choose_release E namespace =
     seq (print_info (''Fetching Helm releases in namespace '' @ [SQ] @ namespace @ [SQ]
            @ ''...'')) (\<lambda>_.
     seq (run_command E (''helm list -n '' @ namespace @ '' -o json'') False)
       (\<lambda>(success, output).
     if success \<and> output \<noteq> [] \<and> strip output \<noteq> ''[]'' then
       try_except
         (seq (lift (json_loads E output)) (\<lambda>releases.
          seq (print_info ''Available Helm releases:'') (\<lambda>_.
          seq (lift (py_iter releases)) (\<lambda>items.
          seq (print_releases E 1 items) (\<lambda>_.
          seq (input ([LF] @ ''Enter release number or name to delete: '')) (\<lambda>selection.
          lift (select_release E releases selection)))))))
         JSONDecodeError
         (ask_release_name namespace)
     else ask_release_name namespace))"

definition RED :: string where
  "RED = CHR 0x1B # ''[91m''"

definition BOLD :: string where
  "BOLD = CHR 0x1B # ''[1m''"

definition ENDC :: string where
  "ENDC = CHR 0x1B # ''[0m''"

definition delete_resources :: "env \<Rightarrow> bool prog" where
  "delete_resources E =
     seq (print_header ''Deleting Kubernetes Resources'') (\<lambda>_.
     seq (print ''1. Delete Prometheus deployment'') (\<lambda>_.
     seq (print ''2. Delete namespace'') (\<lambda>_.
     seq (print ''3. Back to main menu'') (\<lambda>_.
     seq (input ([LF] @ ''Enter your choice (1-3): '')) (\<lambda>choice.
     if choice = ''1'' then
       seq (choose_namespace E
              ([LF] @ ''Enter namespace number or name containing Prometheus deployment: '')
              ''Enter namespace containing Prometheus deployment: '') (\<lambda>namespace.
       if namespace = [] then
         seq (print_error ''Namespace cannot be empty'') (\<lambda>_. ret False)
       else
       seq (print_info (''Using namespace: '' @ namespace)) (\<lambda>_.
       seq (choose_release E namespace) (\<lambda>release_name.
       seq (run_command E (''helm uninstall '' @ release_name @ '' --namespace '' @ namespace)
              True) (\<lambda>(success, _).
       if success then
         seq (print_success (''Successfully deleted Prometheus deployment: '' @ release_name))
           (\<lambda>_. ret True)
       else
         seq (print_error (''Failed to delete Prometheus deployment: '' @ release_name))
           (\<lambda>_. ret False)))))
     else if choice = ''2'' then
       seq (choose_namespace E ([LF] @ ''Enter namespace number or name to delete: '')
              ''Enter namespace to delete: '') (\<lambda>namespace.
       if namespace = [] then
         seq (print_error ''Namespace cannot be empty'') (\<lambda>_. ret False)
       else
       seq (print_info (''Selected namespace: '' @ namespace)) (\<lambda>_.
       seq (print_info (''Resources in namespace '' @ [SQ] @ namespace @ [SQ] @ '':'')) (\<lambda>_.
       seq (run_command E (''kubectl get all -n '' @ namespace) True) (\<lambda>_.
       seq (input ([LF] @ RED @ BOLD @ ''WARNING: Are you sure you want to delete namespace ''
              @ [SQ] @ namespace @ [SQ] @ ''?'' @ ENDC @ [LF]
              @ ''This will delete ALL resources in the namespace and CANNOT be undone. (yes/no): ''))
         (\<lambda>confirm.
       if lower confirm \<noteq> ''yes'' then
         seq (print_info ''Namespace deletion cancelled'') (\<lambda>_. ret False)
       else
       seq (run_command E (''kubectl delete namespace '' @ namespace) True) (\<lambda>(success, _).
       if success then
         seq (print_success (''Successfully deleted namespace: '' @ namespace)) (\<lambda>_. ret True)
       else
         seq (print_error (''Failed to delete namespace: '' @ namespace)) (\<lambda>_.
         ret False)))))))
     else if choice = ''3'' then ret True
     else seq (print_error ''Invalid choice'') (\<lambda>_. ret False))))))"

section \<open>The values file and its hostname\<close>

definition template :: "string \<Rightarrow> string" where
  \<comment> \<open>the default values file, lines 190-221\<close>
  "template hostname = concat (map (\<lambda>l. l @ [LF])
     [''prometheus-node-exporter:'',
      ''  enabled: false'',
      ''kube-state-metrics:'',
      ''  enabled: false'',
      ''alertmanager:'',
      ''  enabled: false'',
      ''serverFiles:'',
      ''  prometheus.yml:'',
      ''    scrape_configs:'',
      ''      - job_name: prometheus'',
      ''        static_configs:'',
      ''          - targets:'',
      ''              - localhost:9090'',
      ''      - job_name: node-exporter'',
      ''        static_configs:'',
      ''          - targets:'',
      ''              - kube-prometheus-stack-prometheus-node-exporter.monitoring:9100'',
      ''      - job_name: nginx'',
      ''        static_configs:'',
      ''          - targets:'',
      ''              - ingress-nginx-controller-metrics.ingress-nginx:10254'',
      ''server:'',
      ''  persistentVolume:'',
      ''    enabled: false'',
      ''  ingress:'',
      ''    enabled: true'',
      ''    ingressClassName: nginx'',
      ''    hosts:'',
      ''      - '' @ hostname,
      ''    annotations:'',
      ''      external-dns.alpha.kubernetes.io/hostname: '' @ [DQ] @ hostname @ [DQ]])"

fun universal_newlines :: "string \<Rightarrow> string" where
  \<comment> \<open>reading a file opened in text mode: \<open>\r\n\<close> and \<open>\r\<close> arrive as \<open>\n\<close>\<close>
  "universal_newlines [] = []"
| "universal_newlines [c] = [if c = CR then LF else c]"
| "universal_newlines (c # d # cs) =
     (if c = CR \<and> d = LF then LF # universal_newlines cs
      else if c = CR then LF # universal_newlines (d # cs)
      else c # universal_newlines (d # cs))"

text \<open>
  The two patterns of the rewrite, as matchers at the head of a text: the result is the
  text after the match. A pattern is a sequence of characters and dots up to its first
  star; what follows the star is written out.
\<close>

datatype atom = Lit char | Dot

fun match_atoms :: "atom list \<Rightarrow> string \<Rightarrow> string option" where
  "match_atoms [] s = Some s"
| "match_atoms (a # as) [] = None"
| "match_atoms (Lit c # as) (x # xs) = (if x = c then match_atoms as xs else None)"
| "match_atoms (Dot # as) (x # xs) = (if x \<noteq> LF then match_atoms as xs else None)"

definition match_hosts :: "string \<Rightarrow> string option" where
  \<comment> \<open>\<open>hosts:\s*\n\s*- .*\<close>: after \<open>hosts:\<close> a run of whitespace with a newline in it
      (the run is all of the whitespace, since \<open>-\<close> is none), then \<open>- \<close>, then the
      rest of the line\<close>
  "match_hosts s =
     (case match_atoms (map Lit ''hosts:'') s of
        None \<Rightarrow> None
      | Some t \<Rightarrow>
          if LF \<in> set (takeWhile isspace_char t) then
            (case match_atoms (map Lit ''- '') (dropWhile isspace_char t) of
               None \<Rightarrow> None
             | Some v \<Rightarrow> Some (dropWhile (\<lambda>c. c \<noteq> LF) v))
          else None)"

definition DNS_PREFIX :: "atom list" where
  "DNS_PREFIX =
     map Lit ''external-dns'' @ [Dot] @ map Lit ''alpha'' @ [Dot] @ map Lit ''kubernetes''
     @ [Dot] @ map Lit ''io/hostname: '' @ [Lit DQ]"

definition match_dns :: "string \<Rightarrow> string option" where
  \<comment> \<open>\<open>external-dns.alpha.kubernetes.io/hostname: ".*"\<close>: after the opening quote, up to
      the last quote of the line\<close>
  "match_dns s =
     (case match_atoms DNS_PREFIX s of
        None \<Rightarrow> None
      | Some t \<Rightarrow>
          (let line = takeWhile (\<lambda>c. c \<noteq> LF) t in
           if DQ \<in> set line then
             Some (rev (takeWhile (\<lambda>c. c \<noteq> DQ) (rev line)) @ dropWhile (\<lambda>c. c \<noteq> LF) t)
           else None))"

function re_sub :: "(string \<Rightarrow> string option) \<Rightarrow> (string \<Rightarrow> string) \<Rightarrow> string \<Rightarrow> string" where
  \<comment> \<open>\<open>re.sub\<close>: from left to right, each match is replaced and the search goes on
      behind it. \<open>repl\<close> maps the matched text to its replacement. Both patterns match
      at least one character (the test on the lengths says so and never fails for them).\<close>
  "re_sub m repl [] = []"
| "re_sub m repl (c # cs) =
     (case m (c # cs) of
        None \<Rightarrow> c # re_sub m repl cs
      | Some rest \<Rightarrow>
          if length rest \<le> length cs
          then repl (take (Suc (length cs) - length rest) (c # cs)) @ re_sub m repl rest
          else c # re_sub m repl cs)"
  by pat_completeness auto
termination
  by (relation "measure (\<lambda>(m, repl, s). length s)") auto

definition compile_repl :: "env \<Rightarrow> string \<Rightarrow> (string \<Rightarrow> string) result" where
  \<comment> \<open>a replacement string without a backslash stands for itself; any other is a
      template, which the library compiles before it searches\<close>
  "compile_repl E r =
     (if BACKSLASH \<in> set r then expand_template E r else Return (\<lambda>_. r))"

definition rewrite_hostname :: "env \<Rightarrow> string \<Rightarrow> string \<Rightarrow> string result" where
  \<comment> \<open>lines 233-234\<close>
  "rewrite_hostname E hostname content =
     (case compile_repl E (''hosts:'' @ [LF] @ ''      - '' @ hostname) of
        Raise e \<Rightarrow> Raise e
      | Return repl1 \<Rightarrow>
         (let content1 = re_sub match_hosts repl1 content in
          case compile_repl E (''external-dns.alpha.kubernetes.io/hostname: '' @ [DQ]
                                @ hostname @ [DQ]) of
            Raise e \<Rightarrow> Raise e
          | Return repl2 \<Rightarrow> Return (re_sub match_dns repl2 content1)))"

definition write_values :: "string \<Rightarrow> unit prog" where
  "write_values content w = (Return (), w\<lparr>values_file := Some content\<rparr>)"

definition ask_hostname :: "string \<Rightarrow> string prog" where
  \<comment> \<open>lines 186 and 225 (the same statement)\<close>
  "ask_hostname namespace =
     seq (input (''Enter hostname for Prometheus ingress (default: '' @ namespace
            @ ''.sctp-sandbox.com): ''))
       (\<lambda>answer. ret (py_or answer (namespace @ ''.sctp-sandbox.com'')))"

definition VALUES_FILE :: string where
  "VALUES_FILE = ''prometheus-values.yaml''"

definition prepare_values :: "env \<Rightarrow> string \<Rightarrow> string prog" where
  \<comment> \<open>lines 180-240: the values file is created, or its hostname rewritten; the value
      is the hostname\<close>
  "prepare_values E namespace w =
     (case values_file w of
        None \<Rightarrow>
          (seq (print_warning (''Values file '' @ VALUES_FILE
                  @ '' not found. Creating a default values file...'')) (\<lambda>_.
           seq (ask_hostname namespace) (\<lambda>hostname.
           seq (write_values (template hostname)) (\<lambda>_.
           seq (print_success (''Created default values file: '' @ VALUES_FILE)) (\<lambda>_.
           ret hostname))))) w
      | Some raw \<Rightarrow>
          (seq (ask_hostname namespace) (\<lambda>hostname.
           seq (lift (rewrite_hostname E hostname (universal_newlines raw))) (\<lambda>content.
           seq (write_values content) (\<lambda>_.
           seq (print_success (''Updated values file with hostname: '' @ hostname)) (\<lambda>_.
           ret hostname))))) w)"

section \<open>The deploy handler\<close>

definition deploy_release :: "env \<Rightarrow> string \<Rightarrow> bool prog" where
  \<comment> \<open>lines 175-260: the release of the chart into the chosen namespace\<close>
  "deploy_release E namespace =
     seq (print_info (''Using namespace: '' @ namespace)) (\<lambda>_.
     seq (input (''Enter Prometheus release name (default: '' @ namespace @ ''-prom): ''))
       (\<lambda>answer.
     (let release_name = py_or answer (namespace @ ''-prom'') in
     seq (prepare_values E namespace) (\<lambda>hostname.
     seq (print_info ''Deploying Prometheus...'') (\<lambda>_.
     seq (run_command E (''helm upgrade --install '' @ release_name
            @ '' prometheus-community/prometheus --version 27.5.1 --values '' @ VALUES_FILE
            @ '' --namespace '' @ namespace) True) (\<lambda>(success, _).
     if success then
       seq (print_success (''Successfully deployed Prometheus to namespace: '' @ namespace)) (\<lambda>_.
       seq (print_info (''Prometheus will be accessible at: http://'' @ hostname)) (\<lambda>_.
       seq (print_info ''Checking deployment status...'') (\<lambda>_.
       seq (emit (Sleep 5)) (\<lambda>_.
       seq (run_command E (''kubectl get pods -n '' @ namespace) True) (\<lambda>_.
       seq (run_command E (''kubectl get svc -n '' @ namespace) True) (\<lambda>_.
       seq (run_command E (''kubectl get ingress -n '' @ namespace) True) (\<lambda>_.
       ret True)))))))
     else
       seq (print_error (''Failed to deploy Prometheus to namespace: '' @ namespace)) (\<lambda>_.
       ret False)))))))"

definition deploy_namespace :: "env \<Rightarrow> bool prog" where
  \<comment> \<open>lines 150-260: the namespace is chosen and must not be empty\<close>
  "deploy_namespace E =
     seq (choose_namespace E
            ([LF] @ ''Enter namespace number or name for Prometheus deployment: '')
            ''Enter namespace for Prometheus deployment: '') (\<lambda>namespace.
     if namespace = [] then
       seq (print_error ''Namespace cannot be empty'') (\<lambda>_. ret False)
     else deploy_release E namespace)"

definition HELM_VERSION :: string where
  "HELM_VERSION = ''helm version''"

definition INSTALL_HELM :: string where
  "INSTALL_HELM =
     ''curl https://raw.githubusercontent.com/helm/helm/main/scripts/get-helm-3 | bash''"

definition REPO_ADD :: string where
  "REPO_ADD =
     ''helm repo add prometheus-community https://prometheus-community.github.io/helm-charts''"

definition REPO_UPDATE :: string where
  "REPO_UPDATE = ''helm repo update''"

definition deploy_repositories :: "env \<Rightarrow> bool prog" where
  \<comment> \<open>lines 138-260: the chart repository is added and refreshed\<close>
  "deploy_repositories E =
     seq (run_command E REPO_ADD True) (\<lambda>(success, _).
     if \<not> success then
       seq (print_error ''Failed to add Prometheus Helm repository'') (\<lambda>_. ret False)
     else
     seq (run_command E REPO_UPDATE True) (\<lambda>(success, _).
     if \<not> success then
       seq (print_error ''Failed to update Helm repositories'') (\<lambda>_. ret False)
     else deploy_namespace E))"

definition deploy_prometheus :: "env \<Rightarrow> bool prog" where
  \<comment> \<open>each \<open>return False\<close> of the script ends the handler; the statements behind it are
      the three definitions above\<close>
  "deploy_prometheus E =
     seq (print_header ''Deploying Prometheus'') (\<lambda>_.
     seq (run_command E HELM_VERSION False) (\<lambda>(success, _).
     if \<not> success then
       seq (print_warning ''Helm is not installed. Installing Helm...'') (\<lambda>_.
       seq (run_command E INSTALL_HELM True) (\<lambda>(success, _).
       if \<not> success then
         seq (print_error ''Failed to install Helm'') (\<lambda>_. ret False)
       else
         seq (print_success ''Helm installed successfully'') (\<lambda>_.
         deploy_repositories E)))
     else deploy_repositories E))"

section \<open>Closed forms and sample worlds\<close>

abbreviation run_ok :: "env \<Rightarrow> string \<Rightarrow> world \<Rightarrow> bool" where
  "run_ok E command w \<equiv> fst (run_value E command w)"

abbreviation run_out :: "env \<Rightarrow> string \<Rightarrow> world \<Rightarrow> string" where
  "run_out E command w \<equiv> snd (run_value E command w)"

definition listed_namespaces :: "env \<Rightarrow> world \<Rightarrow> string list option" where
  \<comment> \<open>the list \<open>choose_namespace\<close> shows in state \<open>w\<close>, if it shows one\<close>
  "listed_namespaces E w =
     (if run_ok E GET_NAMESPACES w \<and> run_out E GET_NAMESPACES w \<noteq> []
      then Some (split LF (strip (run_out E GET_NAMESPACES w))) else None)"

definition resolved_namespace :: "env \<Rightarrow> world \<Rightarrow> string \<Rightarrow> string result" where
  \<comment> \<open>the namespace \<open>choose_namespace\<close> yields in state \<open>w\<close> for the answer \<open>selection\<close>\<close>
  "resolved_namespace E w selection =
     (case listed_namespaces E w of
        Some namespaces \<Rightarrow> select_entry E namespaces selection
      | None \<Rightarrow> Return selection)"

fun numbered :: "nat \<Rightarrow> string list \<Rightarrow> event list" where
  \<comment> \<open>the lines \<open>print_numbered\<close> writes\<close>
  "numbered i [] = []"
| "numbered i (x # xs) = Print Plain (str_nat i @ ''. '' @ x) # numbered (Suc i) xs"

definition decimal :: "string \<Rightarrow> bool" where
  \<comment> \<open>a non-empty string of the digits \<open>0\<close> .. \<open>9\<close>\<close>
  "decimal s = (s \<noteq> [] \<and> list_all isdecimal_char s)"

definition within_limit :: "env \<Rightarrow> string \<Rightarrow> bool" where
  \<comment> \<open>the interpreter converts a digit string of this length\<close>
  "within_limit E s =
     (max_str_digits E = 0 \<or> length s \<le> max_str_digits E \<or> length s \<le> 640)"

definition release_list_unusable :: "env \<Rightarrow> proc \<Rightarrow> bool" where
  \<comment> \<open>the outcomes of \<open>helm list -o json\<close> that lines 305 and 321 send to the manual
      prompt: the command failed, it printed nothing, it printed \<open>[]\<close> (the empty
      list, as helm writes it), or \<open>json.loads\<close> refuses what it printed\<close>
  "release_list_unusable E p =
     (\<not> fst (run_result p) \<or> snd (run_result p) = [] \<or> strip (snd (run_result p)) = ''[]''
      \<or> json_loads E (snd (run_result p)) = Raise JSONDecodeError)"

definition UPGRADE :: "string \<Rightarrow> string \<Rightarrow> string" where
  \<comment> \<open>the install command of line 244\<close>
  "UPGRADE release_name namespace =
     ''helm upgrade --install '' @ release_name
     @ '' prometheus-community/prometheus --version 27.5.1 --values prometheus-values.yaml''
     @ '' --namespace '' @ namespace"

text \<open>
  What a substitution may do to a text: \<open>replaced P r xs ys\<close> says that \<open>ys\<close> is \<open>xs\<close>
  with some parts \<open>m\<close> that satisfy \<open>P\<close>, one after the other, replaced by \<open>r m\<close>, and
  every other character kept in its place.
\<close>

inductive replaced :: "(string \<Rightarrow> bool) \<Rightarrow> (string \<Rightarrow> string) \<Rightarrow> string \<Rightarrow> string \<Rightarrow> bool"
  for P :: "string \<Rightarrow> bool" and r :: "string \<Rightarrow> string" where
  replaced_Nil: "replaced P r [] []"
| replaced_keep: "replaced P r xs ys \<Longrightarrow> replaced P r (c # xs) (c # ys)"
| replaced_match: "P m \<Longrightarrow> replaced P r xs ys \<Longrightarrow> replaced P r (m @ xs) (r m @ ys)"





text \<open>
  The order of commands and prompts is on the terminal: \<open>run_command\<close> announces every
  command with a \<open>Running:\<close> line before it hands it to the shell. \<open>commands_shown\<close>
  reads the commands back from these lines.
\<close>

fun commands_shown :: "event list \<Rightarrow> string list" where
  "commands_shown [] = []"
| "commands_shown (Print Info text # es) =
     (if take 9 text = ''Running: '' then drop 9 text # commands_shown es
      else commands_shown es)"
| "commands_shown (e # es) = commands_shown es"

definition refused_after :: "string \<Rightarrow> string list \<Rightarrow> string list \<Rightarrow> world \<Rightarrow> world \<Rightarrow> bool" where
  \<comment> \<open>from \<open>w\<close> to \<open>w'\<close> the commands \<open>cs\<close> were run and no other, every one of them
      before the last prompt; after that prompt nothing happened but the message
      \<open>msg\<close>, and the answers \<open>rest\<close> are left unread\<close>
  "refused_after msg cs rest w w' =
     (cmds w' = cmds w @ cs \<and> inputs w' = rest
      \<and> (\<exists>pre p. terminal w' = terminal w @ pre @ [Prompt p, Print Error msg]
                  \<and> commands_shown pre = cs))"

definition env_of :: "(string list \<Rightarrow> string \<Rightarrow> proc) \<Rightarrow> env" where
  \<comment> \<open>a sample environment around a shell\<close>
  "env_of f = \<lparr>sh = f, json_loads = (\<lambda>_. Raise JSONDecodeError), py_str = (\<lambda>_. []),
              expand_template = (\<lambda>_. Raise ReError), max_str_digits = 4300\<rparr>"

definition helm_list_gives :: "proc \<Rightarrow> string list \<Rightarrow> string \<Rightarrow> proc" where
  \<comment> \<open>a sample shell: \<open>helm list\<close> has the given outcome, every other command succeeds
      and prints nothing\<close>
  "helm_list_gives p history command =
     (if take 9 command = ''helm list'' then p else Completed [])"

definition spaced_empty_env :: env where
  \<comment> \<open>a sample environment: \<open>helm list\<close> prints \<open>[ ]\<close>, which \<open>json.loads\<close> reads as
      the empty list\<close>
  "spaced_empty_env =
     (env_of (helm_list_gives (Completed ''[ ]'')))\<lparr>json_loads := (\<lambda>_. Return (JArr []))\<rparr>"


definition world_of :: "string list \<Rightarrow> world" where
  \<comment> \<open>a fresh run with the given answers and no values file\<close>
  "world_of answers = \<lparr>inputs = answers, terminal = [], cmds = [], values_file = None\<rparr>"

section \<open>Sequencing lemmas\<close>

lemma ret_apply [simp]: "ret a w = (Return a, w)"
  by (simp add: ret_def)

lemma emit_apply [simp]: "emit e w = (Return (), w\<lparr>terminal := terminal w @ [e]\<rparr>)"
  by (simp add: emit_def)

lemma lift_apply [simp]: "lift r w = (r, w)"
  by (simp add: lift_def)

lemma seq_ret [simp]: "seq (ret a) f w = f a w"
  by (simp add: seq_def ret_def)

lemma seq_emit [simp]: "seq (emit e) f w = f () (w\<lparr>terminal := terminal w @ [e]\<rparr>)"
  by (simp add: seq_def emit_def)

lemma seq_py_if [simp]: "seq (py_if b m) f w = (if b then seq m f w else f () w)"
  by (simp add: py_if_def)

lemma seq_lift [simp]:
  "seq (lift r) f w = (case r of Return a \<Rightarrow> f a w | Raise e \<Rightarrow> (Raise e, w))"
  by (simp add: seq_def lift_def split: result.splits)

lemmas print_defs =
  print_header_def print_success_def print_error_def print_info_def print_warning_def
  print_def

lemma seq_input_Cons:
  "inputs w = l # ls \<Longrightarrow>
   seq (input p) f w = f l (w\<lparr>terminal := terminal w @ [Prompt p], inputs := ls\<rparr>)"
  by (simp add: seq_def input_def)

lemma seq_input_Nil:
  "inputs w = [] \<Longrightarrow>
   seq (input p) f w = (Raise EOFError, w\<lparr>terminal := terminal w @ [Prompt p]\<rparr>)"
  by (simp add: seq_def input_def)

lemma run_command_eq:
  "run_command E command show_output w =
     (Return (run_value E command w), run_world E command show_output w)"
  by (cases "sh E (cmds w) command")
     (simp_all add: run_command_def subprocess_run_def seq_def [of "subprocess_run E command"]
        print_defs run_value_def run_result_def run_world_def run_report_def ret_def)

lemma seq_run_command [simp]:
  "seq (run_command E command show_output) f w =
     f (run_value E command w) (run_world E command show_output w)"
  by (simp add: seq_def run_command_eq)

lemma cmds_run_world [simp]: "cmds (run_world E c s w) = cmds w @ [c]"
  by (simp add: run_world_def)

lemma inputs_run_world [simp]: "inputs (run_world E c s w) = inputs w"
  by (simp add: run_world_def)

lemma values_file_run_world [simp]: "values_file (run_world E c s w) = values_file w"
  by (simp add: run_world_def)

lemma run_value_cong [simp]:
  "run_value E c (w\<lparr>terminal := t\<rparr>) = run_value E c w"
  "run_value E c (w\<lparr>inputs := i\<rparr>) = run_value E c w"
  "run_value E c (w\<lparr>values_file := v\<rparr>) = run_value E c w"
  by (simp_all add: run_value_def)

lemma run_value_run_world:
  "run_value E c (run_world E c' s w) = run_value E c (w\<lparr>cmds := cmds w @ [c']\<rparr>)"
  by (simp add: run_value_def run_world_def)

section \<open>Lower case\<close>

lemma of_char_lower_char:
  "(of_char (lower_char c) :: nat) =
     (if (65 \<le> (of_char c :: nat) \<and> (of_char c :: nat) \<le> 90)
         \<or> (192 \<le> (of_char c :: nat) \<and> (of_char c :: nat) \<le> 222 \<and> (of_char c :: nat) \<noteq> 215)
      then of_char c + 32 else of_char c)"
  by (simp add: lower_char_def Let_def)

lemma char_eq_iff_nat: "c = d \<longleftrightarrow> (of_char c :: nat) = of_char d"
  by simp

lemma lower_char_y: "lower_char c = CHR ''y'' \<longleftrightarrow> c = CHR ''y'' \<or> c = CHR ''Y''"
  unfolding char_eq_iff_nat [of _ "CHR ''y''"] char_eq_iff_nat [of _ "CHR ''Y''"] of_char_lower_char
  by (simp split: if_splits) arith

lemma lower_y: "lower c = ''y'' \<longleftrightarrow> c = ''y'' \<or> c = ''Y''"
  by (cases c) (auto simp: lower_def lower_char_y)

section \<open>The command runner never raises\<close>

text \<open>
  C2. For every command string the command runner returns a (success, output) pair and
  never raises: when the process exits with a nonzero status it returns (False, stderr)
  after writing the exit status and (when there is any) stderr to the terminal; when
  running it fails in any other way it returns (False, the message of the exception); when
  it succeeds it returns (True, stdout). The command is handed to the shell exactly once.
\<close>

theorem run_command_result:
  "fst (run_command E command show_output w) =
     Return (case sh E (cmds w) command of
               Completed stdout \<Rightarrow> (True, stdout)
             | CalledProcessError returncode stdout stderr \<Rightarrow> (False, stderr)
             | OtherException msg \<Rightarrow> (False, msg))
   \<and> cmds (snd (run_command E command show_output w)) = cmds w @ [command]
   \<and> (\<forall>returncode stdout stderr.
        sh E (cmds w) command = CalledProcessError returncode stdout stderr \<longrightarrow>
        terminal (snd (run_command E command show_output w)) =
          terminal w
          @ [Print Info (''Running: '' @ command),
             Print Error (''Command failed with exit code '' @ str_int returncode)]
          @ (if stderr \<noteq> [] then [Print Error (''Error: '' @ stderr)] else [])
          @ (if stdout \<noteq> [] \<and> show_output then [Print Plain stdout] else []))
   \<and> (\<forall>msg. sh E (cmds w) command = OtherException msg \<longrightarrow>
        terminal (snd (run_command E command show_output w)) =
          terminal w
          @ [Print Info (''Running: '' @ command),
             Print Error (''An error occurred: '' @ msg)])"
  by (simp add: run_command_eq run_value_def run_result_def run_world_def run_report_def)

theorem run_command_result_witness:
  "fst (run_command (env_of (\<lambda>_ _. CalledProcessError 1 [] ''not found'')) ''kubectl get pods'' True
         (world_of [])) = Return (False, ''not found'')
   \<and> terminal (snd (run_command (env_of (\<lambda>_ _. CalledProcessError 1 [] ''not found''))
         ''kubectl get pods'' True (world_of []))) =
       [Print Info ''Running: kubectl get pods'',
        Print Error ''Command failed with exit code 1'',
        Print Error ''Error: not found'']"
  using run_command_result [of "env_of (\<lambda>_ _. CalledProcessError 1 [] ''not found'')"
    "''kubectl get pods''" True "world_of []"]
  by (simp add: env_of_def world_of_def str_int_def str_nat.simps digit_char_def)

section \<open>The create-namespace handler: name and confirmation\<close>

lemma create_namespace_no_username:
  "inputs w = [] # rest \<Longrightarrow>
   fst (create_namespace E w) = Return False \<and> cmds (snd (create_namespace E w)) = cmds w"
  by (simp add: create_namespace_def print_defs seq_input_Cons)

lemma create_namespace_no_purpose:
  "inputs w = u # [] # rest \<Longrightarrow> u \<noteq> [] \<Longrightarrow>
   fst (create_namespace E w) = Return False \<and> cmds (snd (create_namespace E w)) = cmds w"
  by (simp add: create_namespace_def print_defs seq_input_Cons)

lemma create_namespace_confirmed:
  "inputs w = u # p # c # rest \<Longrightarrow> u \<noteq> [] \<Longrightarrow> p \<noteq> [] \<Longrightarrow> lower c = ''y'' \<Longrightarrow>
   cmds (snd (create_namespace E w)) = cmds w @ [''kubectl create namespace '' @ u @ ''-'' @ p]
   \<and> fst (create_namespace E w)
       = Return (run_ok E (''kubectl create namespace '' @ u @ ''-'' @ p) w)"
  by (simp add: create_namespace_def print_defs seq_input_Cons Let_def case_prod_beta)

lemma create_namespace_cancelled:
  "inputs w = u # p # c # rest \<Longrightarrow> u \<noteq> [] \<Longrightarrow> p \<noteq> [] \<Longrightarrow> lower c \<noteq> ''y'' \<Longrightarrow>
   cmds (snd (create_namespace E w)) = cmds w \<and> fst (create_namespace E w) = Return False"
  by (simp add: create_namespace_def print_defs seq_input_Cons Let_def case_prod_beta)

lemma create_namespace_announces:
  "inputs w = u # p # rest \<Longrightarrow> u \<noteq> [] \<Longrightarrow> p \<noteq> [] \<Longrightarrow>
   Print Info (''Generated namespace name: '' @ u @ ''-'' @ p)
     \<in> set (terminal (snd (create_namespace E w)))"
  by (cases rest)
     (simp_all add: create_namespace_def print_defs seq_input_Cons seq_input_Nil Let_def
        run_world_def case_prod_beta)

lemma lower_y_lit: "lower ''y'' = ''y''" "lower ''Y'' = ''y''"
  by (simp_all add: lower_y)

text \<open>
  C6. The create-namespace handler derives the namespace by joining the username and the
  purpose with a hyphen: for every non-empty username \<open>u\<close> and non-empty purpose \<open>p\<close> it
  announces the name \<open>u-p\<close>, and the command it issues once the creation is confirmed is
  \<open>kubectl create namespace u-p\<close>. For \<open>azni\<close> and \<open>prom\<close> the name is \<open>azni-prom\<close>.
\<close>

theorem create_namespace_name:
  assumes "inputs w = u # p # rest" and "u \<noteq> []" and "p \<noteq> []"
  shows "Print Info (''Generated namespace name: '' @ u @ ''-'' @ p)
           \<in> set (terminal (snd (create_namespace E w)))
         \<and> (\<forall>c rest'. rest = c # rest' \<and> lower c = ''y'' \<longrightarrow>
              cmds (snd (create_namespace E w))
                = cmds w @ [''kubectl create namespace '' @ u @ ''-'' @ p])"
  using assms create_namespace_announces [of w u p rest E]
    create_namespace_confirmed [of w u p _ _ E]
  by blast

text \<open>The instance of the specification: \<open>azni\<close> and \<open>prom\<close> give \<open>azni-prom\<close>.\<close>

theorem create_namespace_name_witness:
  "Print Info ''Generated namespace name: azni-prom''
     \<in> set (terminal (snd (create_namespace (env_of (\<lambda>_ _. Completed []))
                (world_of [''azni'', ''prom'', ''y'']))))
   \<and> cmds (snd (create_namespace (env_of (\<lambda>_ _. Completed []))
                (world_of [''azni'', ''prom'', ''y''])))
       = [''kubectl create namespace azni-prom'']"
  using create_namespace_name [of "world_of [''azni'', ''prom'', ''y'']" "''azni''" "''prom''"
    "[''y'']" "env_of (\<lambda>_ _. Completed [])"]
  by (simp add: world_of_def lower_y_lit)

text \<open>
  C8, as the code has it. The handler compares the lower-cased answer with \<open>y\<close>: it
  issues the create command exactly when the confirmation is \<open>y\<close> or \<open>Y\<close>; for every
  other answer it returns False and no command is run.
\<close>

theorem create_namespace_confirmation:
  assumes "inputs w = u # p # c # rest" and "u \<noteq> []" and "p \<noteq> []"
  shows "if c = ''y'' \<or> c = ''Y''
         then cmds (snd (create_namespace E w))
                = cmds w @ [''kubectl create namespace '' @ u @ ''-'' @ p]
         else fst (create_namespace E w) = Return False
              \<and> cmds (snd (create_namespace E w)) = cmds w"
  using assms create_namespace_confirmed [of w u p c rest E]
    create_namespace_cancelled [of w u p c rest E]
  by (simp add: lower_y del: One_nat_def)

text \<open>The answer \<open>n\<close> cancels.\<close>

theorem create_namespace_confirmation_witness:
  "fst (create_namespace (env_of (\<lambda>_ _. Completed [])) (world_of [''azni'', ''prom'', ''n'']))
     = Return False
   \<and> cmds (snd (create_namespace (env_of (\<lambda>_ _. Completed []))
                (world_of [''azni'', ''prom'', ''n'']))) = []"
  using create_namespace_confirmation [of "world_of [''azni'', ''prom'', ''n'']" "''azni''"
    "''prom''" "''n''" "[]" "env_of (\<lambda>_ _. Completed [])"]
  by (simp add: world_of_def)

text \<open>
  C8 as stated (only the one-character string \<open>y\<close> confirms) fails: the answer \<open>Y\<close> is
  not that string, and the namespace is created.
\<close>

theorem create_namespace_capital_Y:
  "cmds (snd (create_namespace (env_of (\<lambda>_ _. Completed []))
                (world_of [''azni'', ''prom'', ''Y''])))
     = [''kubectl create namespace azni-prom'']"
  using create_namespace_confirmed [of "world_of [''azni'', ''prom'', ''Y'']" "''azni''"
    "''prom''" "''Y''" "[]" "env_of (\<lambda>_ _. Completed [])"]
  by (simp add: world_of_def lower_y_lit)

section \<open>Choosing a namespace: closed forms\<close>

lemma seq_split:
  "seq m f w = (case fst (m w) of Return a \<Rightarrow> f a (snd (m w)) | Raise e \<Rightarrow> (Raise e, snd (m w)))"
  by (simp add: seq_def case_prod_beta split: result.splits)

lemma print_numbered_eq:
  "print_numbered i xs w = (Return (), w\<lparr>terminal := terminal w @ numbered i xs\<rparr>)"
  by (induction xs arbitrary: i w) (simp_all add: print_defs)

lemma seq_print_numbered [simp]:
  "seq (print_numbered i xs) f w = f () (w\<lparr>terminal := terminal w @ numbered i xs\<rparr>)"
  by (simp add: seq_def print_numbered_eq)

lemma numbered_nth:
  "k < length xs \<Longrightarrow> numbered i xs ! k = Print Plain (str_nat (i + k) @ ''. '' @ xs ! k)"
proof (induction xs arbitrary: i k)
  case Nil
  then show ?case by simp
next
  case (Cons x xs)
  then show ?case by (cases k) simp_all
qed

lemma length_numbered [simp]: "length (numbered i xs) = length xs"
  by (induction xs arbitrary: i) simp_all

lemma listed_namespaces_cong [simp]:
  "listed_namespaces E (w\<lparr>terminal := t\<rparr>) = listed_namespaces E w"
  "listed_namespaces E (w\<lparr>inputs := i\<rparr>) = listed_namespaces E w"
  by (simp_all add: listed_namespaces_def)

lemma resolved_namespace_cong [simp]:
  "resolved_namespace E (w\<lparr>terminal := t\<rparr>) s = resolved_namespace E w s"
  "resolved_namespace E (w\<lparr>inputs := i\<rparr>) s = resolved_namespace E w s"
  by (simp_all add: resolved_namespace_def)

lemma choose_namespace_fst:
  "fst (choose_namespace E p1 p2 w) =
     (case inputs w of [] \<Rightarrow> Raise EOFError | sel # rest \<Rightarrow> resolved_namespace E w sel)"
  by (cases "inputs w")
     (simp_all add: choose_namespace_def print_defs case_prod_beta Let_def seq_input_Cons
        seq_input_Nil input_def resolved_namespace_def listed_namespaces_def)

lemma choose_namespace_cmds [simp]:
  "cmds (snd (choose_namespace E p1 p2 w)) = cmds w @ [GET_NAMESPACES]"
  by (cases "inputs w")
     (simp_all add: choose_namespace_def print_defs case_prod_beta Let_def seq_input_Cons
        seq_input_Nil input_def split: result.splits)

lemma choose_namespace_inputs [simp]:
  "inputs (snd (choose_namespace E p1 p2 w)) = tl (inputs w)"
  by (cases "inputs w")
     (simp_all add: choose_namespace_def print_defs case_prod_beta Let_def seq_input_Cons
        seq_input_Nil input_def split: result.splits)

lemma choose_namespace_values_file [simp]:
  "values_file (snd (choose_namespace E p1 p2 w)) = values_file w"
  by (cases "inputs w")
     (simp_all add: choose_namespace_def print_defs case_prod_beta Let_def seq_input_Cons
        seq_input_Nil input_def split: result.splits)

lemma choose_namespace_shows:
  "listed_namespaces E w = Some namespaces \<Longrightarrow>
   set (numbered 1 namespaces) \<subseteq> set (terminal (snd (choose_namespace E p1 p2 w)))"
  by (cases "inputs w")
     (auto simp: choose_namespace_def print_defs case_prod_beta Let_def seq_input_Cons
        seq_input_Nil input_def listed_namespaces_def split: result.splits if_splits)

lemma seq_choose_namespace:
  "seq (choose_namespace E p1 p2) f w =
     (case inputs w of
        [] \<Rightarrow> (Raise EOFError, snd (choose_namespace E p1 p2 w))
      | sel # rest \<Rightarrow>
         (case resolved_namespace E w sel of
            Return n \<Rightarrow> f n (snd (choose_namespace E p1 p2 w))
          | Raise e \<Rightarrow> (Raise e, snd (choose_namespace E p1 p2 w))))"
  by (simp add: seq_split [of "choose_namespace E p1 p2"] choose_namespace_fst
        split: list.splits)

lemma select_entry_not_digit: "\<not> isdigit sel \<Longrightarrow> select_entry E nss sel = Return sel"
  by (simp add: select_entry_def)

lemma select_entry_empty [simp]: "select_entry E nss [] = Return []"
  by (simp add: select_entry_def isdigit_def)

lemma resolved_namespace_empty [simp]: "resolved_namespace E w [] = Return []"
  by (simp add: resolved_namespace_def split: option.splits)

lemma isdecimal_isdigit: "isdecimal_char c \<Longrightarrow> isdigit_char c"
  by (simp add: isdecimal_char_def isdigit_char_def Let_def)

lemma decimal_isdigit: "decimal s \<Longrightarrow> isdigit s"
  by (auto simp: decimal_def isdigit_def list_all_iff isdecimal_isdigit)

lemma select_entry_in_range:
  "decimal sel \<Longrightarrow> within_limit E sel \<Longrightarrow>
   1 \<le> int_of_digits sel \<Longrightarrow> int_of_digits sel \<le> length nss \<Longrightarrow>
   select_entry E nss sel = Return (nss ! (int_of_digits sel - 1))"
  using decimal_isdigit [of sel]
  by (auto simp: select_entry_def py_int_def decimal_def within_limit_def)

lemma select_entry_out_of_range:
  "decimal sel \<Longrightarrow> within_limit E sel \<Longrightarrow>
   int_of_digits sel = 0 \<or> length nss < int_of_digits sel \<Longrightarrow>
   select_entry E nss sel = Return sel"
  using decimal_isdigit [of sel]
  by (auto simp: select_entry_def py_int_def decimal_def within_limit_def)

section \<open>Selection by number\<close>

lemma seq_input:
  "seq (input p) f w =
     (case inputs w of
        [] \<Rightarrow> (Raise EOFError, w\<lparr>terminal := terminal w @ [Prompt p]\<rparr>)
      | l # ls \<Rightarrow> f l (w\<lparr>terminal := terminal w @ [Prompt p], inputs := ls\<rparr>))"
  by (simp add: seq_def input_def split: list.splits)

lemma seq_assoc [simp]: "seq (seq m f) g = seq m (\<lambda>a. seq (f a) g)"
  by (rule ext) (simp add: seq_def split: prod.splits result.splits)


lemma choose_namespace_terminal:
  "terminal (snd (choose_namespace E p1 p2 w)) =
     terminal w
     @ [Print Info ''Fetching available namespaces...'',
        Print Info (''Running: '' @ GET_NAMESPACES)]
     @ run_report (sh E (cmds w) GET_NAMESPACES) False
     @ (case listed_namespaces E w of
          Some namespaces \<Rightarrow> Print Info ''Available namespaces:'' # numbered 1 namespaces
                              @ [Prompt p1]
        | None \<Rightarrow> [Prompt p2])"
  by (cases "inputs w")
     (simp_all add: choose_namespace_def print_defs case_prod_beta Let_def seq_input
        input_def listed_namespaces_def run_world_def run_value_def split: result.splits)


lemma py_int_superscript: "py_int E [CHR 0xB2] = Raise ValueError"
  by (simp add: py_int_def isdecimal_char_def)

lemma isdigit_superscript: "isdigit [CHR 0xB2]"
  by (simp add: isdigit_def isdigit_char_def)

text \<open>
  C5 (the code departs from it). A selection that \<open>isdigit\<close> accepts is converted with
  \<open>int\<close> before anything else is looked at; \<open>isdigit\<close> accepts the superscript two
  (U+00B2), \<open>int\<close> refuses it. So for every list the selection \<open>\<twosuperior>\<close> is not used
  as a literal name: \<open>ValueError\<close> is raised. (For a selection of decimal digits the
  lemmas \<open>select_entry_in_range\<close>, \<open>select_entry_out_of_range\<close>,
  \<open>choose_namespace_shows\<close> and \<open>numbered_nth\<close> give what the claim says, and
  \<open>select_entry_not_digit\<close> does for a selection \<open>isdigit\<close> refuses.)
\<close>

theorem select_entry_superscript_raises:
  "isdigit [CHR 0xB2] \<and> \<not> decimal [CHR 0xB2]
   \<and> select_entry E namespaces [CHR 0xB2] = Raise ValueError"
  by (simp add: select_entry_def py_int_superscript isdigit_superscript decimal_def
        isdecimal_char_def)

section \<open>The status handler\<close>

lemma status_empty_namespace:
  "inputs w = [] # rest \<Longrightarrow>
   fst (check_resource_status E w) = Return False
   \<and> cmds (snd (check_resource_status E w)) = cmds w @ [GET_NAMESPACES]"
  by (simp add: check_resource_status_def print_defs seq_choose_namespace)

lemma status_returns_True:
  "inputs w = sel # rest \<Longrightarrow> resolved_namespace E w sel = Return n \<Longrightarrow> n \<noteq> [] \<Longrightarrow>
   fst (check_resource_status E w) = Return True
   \<or> fst (check_resource_status E w) = Raise EOFError"
  by (simp add: check_resource_status_def print_defs seq_choose_namespace seq_input
        describe_resource_def split: list.splits)

lemma status_returns_False_iff:
  "inputs w = sel # rest \<Longrightarrow>
   fst (check_resource_status E w) = Return False \<longleftrightarrow> resolved_namespace E w sel = Return []"
  by (simp add: check_resource_status_def print_defs seq_choose_namespace seq_input
        describe_resource_def split: list.splits result.splits)

lemma status_raises_ValueError:
  "inputs w = sel # rest \<Longrightarrow> resolved_namespace E w sel = Raise e \<Longrightarrow>
   fst (check_resource_status E w) = Raise e"
  by (simp add: check_resource_status_def print_defs seq_choose_namespace)

lemma resolved_superscript:
  "resolved_namespace (env_of (\<lambda>_ _. Completed ''default'')) (world_of ins) [CHR 0xB2]
     = Raise ValueError"
  by (simp add: resolved_namespace_def listed_namespaces_def run_value_def run_result_def
        env_of_def select_entry_def isdigit_superscript py_int_superscript)

text \<open>
  C10 (the code departs from it). With the namespace \<open>default\<close> listed and the selection
  \<open>\<twosuperior>\<close> (U+00B2) the status handler returns neither True nor False: the
  \<open>ValueError\<close> of the selection leaves it. When the selection resolves to a namespace,
  \<open>status_returns_True\<close> and \<open>status_returns_False_iff\<close> give the claim: False for the
  empty namespace, and otherwise True unless standard input ends.
\<close>

theorem status_superscript_raises:
  "fst (check_resource_status (env_of (\<lambda>_ _. Completed ''default''))
          (world_of [[CHR 0xB2], ''1''])) = Raise ValueError"
  using status_raises_ValueError [of "world_of [[CHR 0xB2], ''1'']" "[CHR 0xB2]" "[''1'']"
    "env_of (\<lambda>_ _. Completed ''default'')" ValueError]
  by (simp add: resolved_superscript) (simp add: world_of_def)

section \<open>The delete handler: deleting a namespace\<close>

lemma lower_char_e: "lower_char c = CHR ''e'' \<longleftrightarrow> c = CHR ''e'' \<or> c = CHR ''E''"
  unfolding char_eq_iff_nat [of _ "CHR ''e''"] char_eq_iff_nat [of _ "CHR ''E''"] of_char_lower_char
  by (simp split: if_splits) arith

lemma lower_char_s: "lower_char c = CHR ''s'' \<longleftrightarrow> c = CHR ''s'' \<or> c = CHR ''S''"
  unfolding char_eq_iff_nat [of _ "CHR ''s''"] char_eq_iff_nat [of _ "CHR ''S''"] of_char_lower_char
  by (simp split: if_splits) arith

lemma lower_yes_length: "lower c = ''yes'' \<Longrightarrow> \<exists>y e s. c = [y, e, s]"
proof -
  assume a: "lower c = ''yes''"
  have "length (lower c) = length c" by (simp add: lower_def)
  with a have "length c = Suc (Suc (Suc 0))" by simp
  then show ?thesis by (simp add: length_Suc_conv) blast
qed

lemma lower_three:
  "lower [y, e, s] = ''yes'' \<longleftrightarrow>
     (y = CHR ''y'' \<or> y = CHR ''Y'') \<and> (e = CHR ''e'' \<or> e = CHR ''E'')
     \<and> (s = CHR ''s'' \<or> s = CHR ''S'')"
  by (simp add: lower_def lower_char_y lower_char_e lower_char_s)

lemma lower_yes:
  "lower c = ''yes'' \<longleftrightarrow>
     (\<exists>y e s. c = [y, e, s] \<and> (y = CHR ''y'' \<or> y = CHR ''Y'') \<and> (e = CHR ''e'' \<or> e = CHR ''E'')
        \<and> (s = CHR ''s'' \<or> s = CHR ''S''))"
proof
  assume a: "lower c = ''yes''"
  then obtain y e s where c: "c = [y, e, s]" using lower_yes_length by blast
  with a lower_three [of y e s] show "\<exists>y e s. c = [y, e, s] \<and> (y = CHR ''y'' \<or> y = CHR ''Y'')
     \<and> (e = CHR ''e'' \<or> e = CHR ''E'') \<and> (s = CHR ''s'' \<or> s = CHR ''S'')"
    by blast
next
  assume "\<exists>y e s. c = [y, e, s] \<and> (y = CHR ''y'' \<or> y = CHR ''Y'')
     \<and> (e = CHR ''e'' \<or> e = CHR ''E'') \<and> (s = CHR ''s'' \<or> s = CHR ''S'')"
  then obtain y e s where "c = [y, e, s]" and "(y = CHR ''y'' \<or> y = CHR ''Y'')
     \<and> (e = CHR ''e'' \<or> e = CHR ''E'') \<and> (s = CHR ''s'' \<or> s = CHR ''S'')"
    by blast
  then show "lower c = ''yes''" using lower_three [of y e s] by simp
qed

lemma lower_yes_lit:
  "lower ''yes'' = ''yes''" "lower ''Yes'' = ''yes''" "lower ''y'' \<noteq> ''yes''"
  "lower [] \<noteq> ''yes''" "lower ''no'' \<noteq> ''yes''"
  by (simp_all add: lower_def) code_simp+

lemma delete_empty_namespace_1:
  "inputs w = ''1'' # [] # rest \<Longrightarrow>
   fst (delete_resources E w) = Return False
   \<and> cmds (snd (delete_resources E w)) = cmds w @ [GET_NAMESPACES]"
  by (simp add: delete_resources_def print_defs seq_input seq_choose_namespace)

lemma delete_empty_namespace_2:
  "inputs w = ''2'' # [] # rest \<Longrightarrow>
   fst (delete_resources E w) = Return False
   \<and> cmds (snd (delete_resources E w)) = cmds w @ [GET_NAMESPACES]"
  by (simp add: delete_resources_def print_defs seq_input seq_choose_namespace)

lemma delete_namespace_cancelled:
  "inputs w = ''2'' # sel # c # rest \<Longrightarrow> resolved_namespace E w sel = Return n \<Longrightarrow> n \<noteq> [] \<Longrightarrow>
   lower c \<noteq> ''yes'' \<Longrightarrow>
   fst (delete_resources E w) = Return False
   \<and> cmds (snd (delete_resources E w)) = cmds w @ [GET_NAMESPACES, ''kubectl get all -n '' @ n]"
  by (simp add: delete_resources_def print_defs seq_input seq_choose_namespace)

lemma delete_namespace_confirmed:
  "inputs w = ''2'' # sel # c # rest \<Longrightarrow> resolved_namespace E w sel = Return n \<Longrightarrow> n \<noteq> [] \<Longrightarrow>
   lower c = ''yes'' \<Longrightarrow>
   cmds (snd (delete_resources E w)) =
     cmds w @ [GET_NAMESPACES, ''kubectl get all -n '' @ n, ''kubectl delete namespace '' @ n]"
  by (simp add: delete_resources_def print_defs seq_input seq_choose_namespace case_prod_beta)

lemma no_list_env [simp]:
  "resolved_namespace (env_of (\<lambda>_ _. Completed [])) w sel = Return sel"
  by (simp add: resolved_namespace_def listed_namespaces_def run_value_def run_result_def
        env_of_def)

text \<open>
  C3, as the code has it. On the namespace-deletion path (choice 2, a namespace \<open>n\<close>
  that is not empty) the handler compares the lower-cased confirmation with \<open>yes\<close>:
  \<open>kubectl delete namespace n\<close> is run exactly when the confirmation is \<open>yes\<close> in any
  mix of upper and lower case (\<open>lower_yes\<close>); for every other answer, \<open>y\<close> and the
  empty answer among them, the handler returns False and has run only the listing of
  the namespaces and of the resources of \<open>n\<close>.
\<close>

theorem delete_namespace_confirmation:
  assumes "inputs w = ''2'' # sel # c # rest"
    and "resolved_namespace E w sel = Return n" and "n \<noteq> []"
  shows "if lower c = ''yes''
         then cmds (snd (delete_resources E w)) =
                cmds w @ [GET_NAMESPACES, ''kubectl get all -n '' @ n,
                          ''kubectl delete namespace '' @ n]
         else fst (delete_resources E w) = Return False
              \<and> cmds (snd (delete_resources E w)) =
                    cmds w @ [GET_NAMESPACES, ''kubectl get all -n '' @ n]"
  using assms delete_namespace_confirmed [of w sel c rest E n]
    delete_namespace_cancelled [of w sel c rest E n]
  by (cases "lower c = ''yes''") simp_all

text \<open>The answer \<open>y\<close> cancels the deletion of the namespace \<open>team\<close>.\<close>

theorem delete_namespace_confirmation_witness:
  "fst (delete_resources (env_of (\<lambda>_ _. Completed [])) (world_of [''2'', ''team'', ''y'']))
     = Return False
   \<and> cmds (snd (delete_resources (env_of (\<lambda>_ _. Completed []))
                (world_of [''2'', ''team'', ''y''])))
       = [GET_NAMESPACES, ''kubectl get all -n team'']"
  using delete_namespace_confirmation [of "world_of [''2'', ''team'', ''y'']" "''team''" "''y''"
    "[]" "env_of (\<lambda>_ _. Completed [])" "''team''"]
  by (simp add: lower_yes_lit) (simp add: world_of_def)

text \<open>
  C3 as stated (the answer \<open>Yes\<close> cancels) fails: with \<open>Yes\<close> the namespace is
  deleted.
\<close>

theorem delete_namespace_capital_Yes:
  "cmds (snd (delete_resources (env_of (\<lambda>_ _. Completed []))
                (world_of [''2'', ''team'', ''Yes''])))
     = [GET_NAMESPACES, ''kubectl get all -n team'', ''kubectl delete namespace team'']"
  using delete_namespace_confirmed [of "world_of [''2'', ''team'', ''Yes'']" "''team''" "''Yes''"
    "[]" "env_of (\<lambda>_ _. Completed [])" "''team''"]
  by (simp add: lower_yes_lit) (simp add: world_of_def)

section \<open>The delete handler: choosing the release\<close>

lemma try_except_lift:
  "try_except (seq (lift r) f) x h w =
     (case r of
        Raise e \<Rightarrow> if e = x then h w else (Raise e, w)
      | Return a \<Rightarrow> try_except (f a) x h w)"
  by (simp add: try_except_def split: result.splits)

lemma ask_release_name_eq:
  "ask_release_name n w =
     (case inputs w of
        [] \<Rightarrow> (Raise EOFError,
               w\<lparr>terminal := terminal w
                  @ [Prompt (''Enter Prometheus release name (default: '' @ n @ ''-prom): '')]\<rparr>)
      | a # rest \<Rightarrow> (Return (py_or a (n @ ''-prom'')),
               w\<lparr>terminal := terminal w
                  @ [Prompt (''Enter Prometheus release name (default: '' @ n @ ''-prom): '')],
                 inputs := rest\<rparr>))"
  by (simp add: ask_release_name_def seq_input split: list.splits)

lemma choose_release_fallback:
  "release_list_unusable E (sh E (cmds w) (''helm list -n '' @ n @ '' -o json'')) \<Longrightarrow>
   choose_release E n w =
     ask_release_name n
       (run_world E (''helm list -n '' @ n @ '' -o json'') False
          (w\<lparr>terminal := terminal w
               @ [Print Info (''Fetching Helm releases in namespace '' @ [SQ] @ n @ [SQ]
                    @ ''...'')]\<rparr>))"
  by (auto simp: choose_release_def print_defs case_prod_beta run_value_def release_list_unusable_def
        try_except_lift)


lemma seq_choose_release_fallback:
  "release_list_unusable E (sh E (cmds w) (''helm list -n '' @ n @ '' -o json'')) \<Longrightarrow>
   seq (choose_release E n) f w =
     seq (ask_release_name n) f
       (run_world E (''helm list -n '' @ n @ '' -o json'') False
          (w\<lparr>terminal := terminal w
               @ [Print Info (''Fetching Helm releases in namespace '' @ [SQ] @ n @ [SQ]
                    @ ''...'')]\<rparr>))"
  by (simp add: seq_def choose_release_fallback)

lemma seq_ask_release_name:
  "seq (ask_release_name n) f w =
     (case inputs w of
        [] \<Rightarrow> (Raise EOFError,
               w\<lparr>terminal := terminal w
                  @ [Prompt (''Enter Prometheus release name (default: '' @ n @ ''-prom): '')]\<rparr>)
      | a # rest \<Rightarrow> f (py_or a (n @ ''-prom''))
               (w\<lparr>terminal := terminal w
                  @ [Prompt (''Enter Prometheus release name (default: '' @ n @ ''-prom): '')],
                 inputs := rest\<rparr>))"
  by (simp add: seq_def ask_release_name_eq split: list.splits)

lemma resolved_not_digit: "\<not> isdigit sel \<Longrightarrow> resolved_namespace E w sel = Return sel"
  by (simp add: resolved_namespace_def select_entry_not_digit split: option.splits)

lemma delete_release_fallback:
  "inputs w = ''1'' # sel # a # rest \<Longrightarrow> resolved_namespace E w sel = Return n \<Longrightarrow> n \<noteq> [] \<Longrightarrow>
   release_list_unusable E
     (sh E (cmds w @ [GET_NAMESPACES]) (''helm list -n '' @ n @ '' -o json'')) \<Longrightarrow>
   Prompt (''Enter Prometheus release name (default: '' @ n @ ''-prom): '')
     \<in> set (terminal (snd (delete_resources E w)))
   \<and> cmds (snd (delete_resources E w)) =
       cmds w @ [GET_NAMESPACES, ''helm list -n '' @ n @ '' -o json'',
                 ''helm uninstall '' @ py_or a (n @ ''-prom'') @ '' --namespace '' @ n]"
  by (simp add: delete_resources_def print_defs seq_input seq_choose_namespace
        seq_choose_release_fallback seq_ask_release_name case_prod_beta run_world_def)


lemma delete_release_fallback_result:
  "inputs w = ''1'' # sel # a # rest \<Longrightarrow> resolved_namespace E w sel = Return n \<Longrightarrow> n \<noteq> [] \<Longrightarrow>
   release_list_unusable E
     (sh E (cmds w @ [GET_NAMESPACES]) (''helm list -n '' @ n @ '' -o json'')) \<Longrightarrow>
   fst (delete_resources E w) =
     Return (fst (run_result
       (sh E (cmds w @ [GET_NAMESPACES, ''helm list -n '' @ n @ '' -o json''])
          (''helm uninstall '' @ py_or a (n @ ''-prom'') @ '' --namespace '' @ n))))"
  by (simp add: delete_resources_def print_defs seq_input seq_choose_namespace
        seq_choose_release_fallback seq_ask_release_name case_prod_beta run_value_def)

lemma not_isdigit_team: "\<not> isdigit ''team''"
  by (simp add: isdigit_def isdigit_char_def)

lemma helm_list_gives_team [simp]:
  "helm_list_gives p h ''helm list -n team -o json'' = p"
  "helm_list_gives p h GET_NAMESPACES = Completed []"
  "helm_list_gives p h ''helm uninstall team-prom --namespace team'' = Completed []"
  "helm_list_gives p h ''helm uninstall  --namespace team'' = Completed []"
  by (simp_all add: helm_list_gives_def GET_NAMESPACES_def)

lemma sh_env_of [simp]: "sh (env_of f) = f"
  by (simp add: env_of_def)

lemma json_loads_env_of [simp]: "json_loads (env_of f) = (\<lambda>_. Raise JSONDecodeError)"
  by (simp add: env_of_def)

lemma strip_brackets: "strip (''[]'' @ [LF]) = ''[]''" "strip ''[ ]'' \<noteq> ''[]''"
  by (simp_all add: strip_def isspace_char_def)

lemma spaced_empty_env_simps [simp]:
  "sh spaced_empty_env = helm_list_gives (Completed ''[ ]'')"
  "json_loads spaced_empty_env = (\<lambda>_. Return (JArr []))"
  by (simp_all add: spaced_empty_env_def env_of_def)

lemma not_isdigit_Nil: "\<not> isdigit []"
  by (simp add: isdigit_def)

lemma seq_try_except:
  "seq (try_except body x h) f w =
     (case body w of
        (Raise e, w') \<Rightarrow> if e = x then seq h f w' else (Raise e, w')
      | (Return a, w') \<Rightarrow> f a w')"
  by (simp add: seq_def try_except_def split: prod.splits result.splits)

lemma spaced_empty_cmds:
  "cmds (snd (delete_resources spaced_empty_env (world_of [''1'', ''team'', []])))
     = [GET_NAMESPACES, ''helm list -n team -o json'', ''helm uninstall  --namespace team'']"
  by (simp add: delete_resources_def print_defs seq_input seq_choose_namespace
        choose_release_def seq_try_except case_prod_beta run_value_def run_result_def
        world_of_def strip_brackets py_iter_def select_release_def not_isdigit_Nil
        resolved_not_digit not_isdigit_team)


lemma spaced_empty_prompts:
  "Prompt ''Enter Prometheus release name (default: team-prom): ''
     \<notin> set (terminal (snd (delete_resources spaced_empty_env (world_of [''1'', ''team'', []]))))
   \<and> Prompt ([LF] @ ''Enter release number or name to delete: '')
     \<in> set (terminal (snd (delete_resources spaced_empty_env (world_of [''1'', ''team'', []]))))"
  by (simp add: delete_resources_def print_defs seq_input seq_choose_namespace
        choose_release_def seq_try_except case_prod_beta run_value_def run_result_def
        world_of_def strip_brackets py_iter_def select_release_def not_isdigit_Nil
        resolved_not_digit not_isdigit_team choose_namespace_terminal listed_namespaces_def
        run_world_def run_report_def)

text \<open>
  C9, as the code has it. On the release-deletion path (choice 1, a namespace \<open>n\<close> that
  is not empty), when \<open>helm list -n n -o json\<close> fails, prints nothing, prints \<open>[]\<close> and
  nothing but whitespace around it, or prints text on which \<open>json.loads\<close> raises
  \<open>JSONDecodeError\<close> (\<open>release_list_unusable\<close>), the handler asks for the release name
  by hand with the default \<open>n-prom\<close> and goes on to \<open>helm uninstall\<close> with the name
  given (or the default, for an empty answer); its result is that of the uninstall.
\<close>

theorem release_list_fallback:
  assumes "inputs w = ''1'' # sel # a # rest"
    and "resolved_namespace E w sel = Return n" and "n \<noteq> []"
    and "release_list_unusable E
           (sh E (cmds w @ [GET_NAMESPACES]) (''helm list -n '' @ n @ '' -o json''))"
  shows "Prompt (''Enter Prometheus release name (default: '' @ n @ ''-prom): '')
           \<in> set (terminal (snd (delete_resources E w)))
         \<and> cmds (snd (delete_resources E w)) =
             cmds w @ [GET_NAMESPACES, ''helm list -n '' @ n @ '' -o json'',
                       ''helm uninstall '' @ py_or a (n @ ''-prom'') @ '' --namespace '' @ n]
         \<and> fst (delete_resources E w) =
             Return (fst (run_result
               (sh E (cmds w @ [GET_NAMESPACES, ''helm list -n '' @ n @ '' -o json''])
                  (''helm uninstall '' @ py_or a (n @ ''-prom'') @ '' --namespace '' @ n))))"
  using assms delete_release_fallback [of w sel a rest E n]
    delete_release_fallback_result [of w sel a rest E n]
  by blast

text \<open>
  Each of the four cases, for the namespace \<open>team\<close> and an empty answer to the prompt:
  the list command fails; it prints nothing; it prints \<open>[]\<close> and a newline; it prints
  text that is no JSON. Every time \<open>team-prom\<close> is uninstalled.
\<close>

theorem release_list_fallback_witness:
  "cmds (snd (delete_resources (env_of (helm_list_gives (CalledProcessError 1 [] ''no cluster'')))
                (world_of [''1'', ''team'', []])))
     = [GET_NAMESPACES, ''helm list -n team -o json'',
        ''helm uninstall team-prom --namespace team'']
   \<and> cmds (snd (delete_resources (env_of (helm_list_gives (Completed [])))
                (world_of [''1'', ''team'', []])))
     = [GET_NAMESPACES, ''helm list -n team -o json'',
        ''helm uninstall team-prom --namespace team'']
   \<and> cmds (snd (delete_resources (env_of (helm_list_gives (Completed (''[]'' @ [LF]))))
                (world_of [''1'', ''team'', []])))
     = [GET_NAMESPACES, ''helm list -n team -o json'',
        ''helm uninstall team-prom --namespace team'']
   \<and> cmds (snd (delete_resources (env_of (helm_list_gives (Completed ''Error: no JSON'')))
                (world_of [''1'', ''team'', []])))
     = [GET_NAMESPACES, ''helm list -n team -o json'',
        ''helm uninstall team-prom --namespace team'']"
proof -
  have r: "\<And>E. resolved_namespace E (world_of [''1'', ''team'', []]) ''team'' = Return ''team''"
    by (simp add: resolved_not_digit not_isdigit_team)
  have i: "inputs (world_of [''1'', ''team'', []]) = ''1'' # ''team'' # [] # []"
    and c: "cmds (world_of [''1'', ''team'', []]) = []"
    by (simp_all add: world_of_def)
  have u1: "release_list_unusable (env_of (helm_list_gives (CalledProcessError 1 [] ''no cluster'')))
              (CalledProcessError 1 [] ''no cluster'')"
    and u2: "release_list_unusable (env_of (helm_list_gives (Completed []))) (Completed [])"
    and u3: "release_list_unusable (env_of (helm_list_gives (Completed (''[]'' @ [LF]))))
              (Completed (''[]'' @ [LF]))"
    and u4: "release_list_unusable (env_of (helm_list_gives (Completed ''Error: no JSON'')))
              (Completed ''Error: no JSON'')"
    using strip_brackets(1)
    by (simp_all add: release_list_unusable_def run_result_def)
  from release_list_fallback [of "world_of [''1'', ''team'', []]" "''team''" "[]" "[]"
      "env_of (helm_list_gives (CalledProcessError 1 [] ''no cluster''))" "''team''"]
    release_list_fallback [of "world_of [''1'', ''team'', []]" "''team''" "[]" "[]"
      "env_of (helm_list_gives (Completed []))" "''team''"]
    release_list_fallback [of "world_of [''1'', ''team'', []]" "''team''" "[]" "[]"
      "env_of (helm_list_gives (Completed (''[]'' @ [LF])))" "''team''"]
    release_list_fallback [of "world_of [''1'', ''team'', []]" "''team''" "[]" "[]"
      "env_of (helm_list_gives (Completed ''Error: no JSON''))" "''team''"]
    r i c u1 u2 u3 u4
  show ?thesis by (simp add: py_or_def)
qed

text \<open>
  C9 as stated (an empty list leads to the prompt with the default) fails: the handler
  compares the text of the output with \<open>[]\<close>. When the output is \<open>[ ]\<close>, an empty list
  for \<open>json.loads\<close>, the prompt with the default does not appear; the handler asks for a
  number or a name, and the empty answer is the release it uninstalls.
\<close>

theorem release_list_spaced_empty:
  "json_loads spaced_empty_env ''[ ]'' = Return (JArr [])
   \<and> cmds (snd (delete_resources spaced_empty_env (world_of [''1'', ''team'', []])))
       = [GET_NAMESPACES, ''helm list -n team -o json'', ''helm uninstall  --namespace team'']
   \<and> Prompt ''Enter Prometheus release name (default: team-prom): ''
       \<notin> set (terminal (snd (delete_resources spaced_empty_env
                                (world_of [''1'', ''team'', []]))))"
  using spaced_empty_cmds spaced_empty_prompts by simp

section \<open>Empty answers to required fields\<close>

lemma deploy_prometheus_unfold:
  "deploy_prometheus E w =
     (let w1 = run_world E HELM_VERSION False
                 (w\<lparr>terminal := terminal w @ [Print Header ''Deploying Prometheus'']\<rparr>) in
      if run_ok E HELM_VERSION w then deploy_repositories E w1
      else
        (let w2 = run_world E INSTALL_HELM True
                    (w1\<lparr>terminal := terminal w1
                         @ [Print Warning ''Helm is not installed. Installing Helm...'']\<rparr>) in
         if run_ok E INSTALL_HELM w1
         then deploy_repositories E
                (w2\<lparr>terminal := terminal w2 @ [Print Success ''Helm installed successfully'']\<rparr>)
         else (Return False,
               w2\<lparr>terminal := terminal w2 @ [Print Error ''Failed to install Helm'']\<rparr>)))"
  by (simp add: deploy_prometheus_def print_defs case_prod_beta Let_def)

lemma commands_shown_append [simp]:
  "commands_shown (xs @ ys) = commands_shown xs @ commands_shown ys"
  by (induction xs rule: commands_shown.induct) simp_all

lemma commands_shown_run_report [simp]: "commands_shown (run_report p s) = []"
  by (cases p) (simp_all add: run_report_def)

lemma commands_shown_numbered [simp]: "commands_shown (numbered i xs) = []"
  by (induction xs arbitrary: i) simp_all

lemma commands_shown_Running [simp]:
  "commands_shown (Print Info (''Running: '' @ c) # es) = c # commands_shown es"
  by simp

lemma terminal_run_world:
  "terminal (run_world E c s w) =
     terminal w @ Print Info (''Running: '' @ c) # run_report (sh E (cmds w) c) s"
  by (simp add: run_world_def)

lemma choose_namespace_asks:
  "\<exists>pre p. terminal (snd (choose_namespace E p1 p2 w)) = terminal w @ pre @ [Prompt p]
     \<and> commands_shown pre = [GET_NAMESPACES]"
proof (cases "listed_namespaces E w")
  case None
  let ?pre = "[Print Info ''Fetching available namespaces...'',
        Print Info (''Running: '' @ GET_NAMESPACES)]
     @ run_report (sh E (cmds w) GET_NAMESPACES) False"
  have "terminal (snd (choose_namespace E p1 p2 w)) = terminal w @ ?pre @ [Prompt p2]"
    using None by (simp add: choose_namespace_terminal)
  moreover have "commands_shown ?pre = [GET_NAMESPACES]" by simp
  ultimately show ?thesis by blast
next
  case (Some namespaces)
  let ?pre = "[Print Info ''Fetching available namespaces...'',
        Print Info (''Running: '' @ GET_NAMESPACES)]
     @ run_report (sh E (cmds w) GET_NAMESPACES) False
     @ Print Info ''Available namespaces:'' # numbered 1 namespaces"
  have "terminal (snd (choose_namespace E p1 p2 w)) = terminal w @ ?pre @ [Prompt p1]"
    using Some by (simp add: choose_namespace_terminal)
  moreover have "commands_shown ?pre = [GET_NAMESPACES]" by simp
  ultimately show ?thesis by blast
qed

lemma refused_after_compose:
  assumes "terminal w1 = terminal w @ t0" and "cmds w1 = cmds w @ commands_shown t0"
    and "refused_after msg cs rest w1 w'"
  shows "refused_after msg (commands_shown t0 @ cs) rest w w'"
proof -
  from assms(3) obtain pre p where
    c: "cmds w' = cmds w1 @ cs" and i: "inputs w' = rest"
    and t: "terminal w' = terminal w1 @ pre @ [Prompt p, Print Error msg]"
    and s: "commands_shown pre = cs"
    unfolding refused_after_def by blast
  have "terminal w' = terminal w @ (t0 @ pre) @ [Prompt p, Print Error msg]"
    using t assms(1) by simp
  moreover have "commands_shown (t0 @ pre) = commands_shown t0 @ cs" using s by simp
  moreover have "cmds w' = cmds w @ commands_shown t0 @ cs" using c assms(2) by simp
  ultimately show ?thesis unfolding refused_after_def using i by blast
qed

lemma namespace_refused:
  assumes "inputs w = [] # rest"
  shows "refused_after ''Namespace cannot be empty'' [GET_NAMESPACES] rest w
           ((snd (choose_namespace E p1 p2 w))
              \<lparr>terminal := terminal (snd (choose_namespace E p1 p2 w))
                 @ [Print Error ''Namespace cannot be empty'']\<rparr>)"
proof -
  from choose_namespace_asks [of E p1 p2 w] obtain pre p where
    "terminal (snd (choose_namespace E p1 p2 w)) = terminal w @ pre @ [Prompt p]"
    "commands_shown pre = [GET_NAMESPACES]" by blast
  then show ?thesis unfolding refused_after_def using assms by auto
qed

lemma status_refused:
  assumes "inputs w = [] # rest"
  shows "fst (check_resource_status E w) = Return False
         \<and> refused_after ''Namespace cannot be empty'' [GET_NAMESPACES] rest w
             (snd (check_resource_status E w))"
proof -
  define w0 where "w0 = w\<lparr>terminal := terminal w @ [Print Header ''Resource Status Check'']\<rparr>"
  define p1 where "p1 = [LF] @ ''Enter namespace number or name to check: ''"
  have i0: "inputs w0 = [] # rest" using assms by (simp add: w0_def)
  have r: "check_resource_status E w =
             (Return False,
              (snd (choose_namespace E p1 ''Enter namespace to check: '' w0))
                \<lparr>terminal := terminal (snd (choose_namespace E p1 ''Enter namespace to check: '' w0))
                   @ [Print Error ''Namespace cannot be empty'']\<rparr>)"
    using assms
    by (simp add: check_resource_status_def print_defs seq_choose_namespace w0_def p1_def)
  have "terminal w0 = terminal w @ [Print Header ''Resource Status Check'']"
    and "cmds w0 = cmds w @ commands_shown [Print Header ''Resource Status Check'']"
    by (simp_all add: w0_def)
  from refused_after_compose [OF this namespace_refused [OF i0, of E p1 "''Enter namespace to check: ''"]]
  show ?thesis using r by simp
qed


lemma create_refused_username:
  assumes "inputs w = [] # rest"
  shows "fst (create_namespace E w) = Return False
   \<and> refused_after ''Username cannot be empty'' [] rest w (snd (create_namespace E w))"
proof -
  have r: "create_namespace E w =
     (Return False,
      w\<lparr>terminal := terminal w @ [Print Header ''Creating Kubernetes Namespace'']
           @ [Prompt ''Enter your username or identifier (e.g., 'azni'): '',
              Print Error ''Username cannot be empty''],
        inputs := rest\<rparr>)"
    using assms by (simp add: create_namespace_def print_defs seq_input)
  have "commands_shown [Print Header ''Creating Kubernetes Namespace''] = []" by simp
  then show ?thesis unfolding refused_after_def r by (simp del: append.simps)
qed

lemma create_refused_purpose:
  assumes "inputs w = u # [] # rest" and "u \<noteq> []"
  shows "fst (create_namespace E w) = Return False
   \<and> refused_after ''Purpose cannot be empty'' [] rest w (snd (create_namespace E w))"
proof -
  have r: "create_namespace E w =
     (Return False,
      w\<lparr>terminal := terminal w
           @ [Print Header ''Creating Kubernetes Namespace'',
              Prompt ''Enter your username or identifier (e.g., 'azni'): '']
           @ [Prompt ''Enter namespace purpose (e.g., 'eks', 'prom', 'app'): '',
              Print Error ''Purpose cannot be empty''],
        inputs := rest\<rparr>)"
    using assms by (simp add: create_namespace_def print_defs seq_input)
  have "commands_shown [Print Header ''Creating Kubernetes Namespace'',
              Prompt ''Enter your username or identifier (e.g., 'azni'): ''] = []" by simp
  then show ?thesis unfolding refused_after_def r by (simp del: append.simps)
qed

lemma delete_refused:
  assumes "inputs w = ch # [] # rest" and "ch = ''1'' \<or> ch = ''2''"
  shows "fst (delete_resources E w) = Return False
         \<and> refused_after ''Namespace cannot be empty'' [GET_NAMESPACES] rest w
             (snd (delete_resources E w))"
proof -
  define t0 where "t0 = [Print Header ''Deleting Kubernetes Resources'',
     Print Plain ''1. Delete Prometheus deployment'', Print Plain ''2. Delete namespace'',
     Print Plain ''3. Back to main menu'', Prompt ([LF] @ ''Enter your choice (1-3): '')]"
  define w0 where "w0 = w\<lparr>terminal := terminal w @ t0, inputs := [] # rest\<rparr>"
  have i0: "inputs w0 = [] # rest" by (simp add: w0_def)
  have t: "terminal w0 = terminal w @ t0" and c: "cmds w0 = cmds w @ commands_shown t0"
    by (simp_all add: w0_def t0_def)
  have "\<exists>p1 p2. delete_resources E w =
             (Return False,
              (snd (choose_namespace E p1 p2 w0))
                \<lparr>terminal := terminal (snd (choose_namespace E p1 p2 w0))
                   @ [Print Error ''Namespace cannot be empty'']\<rparr>)"
  proof (cases "ch = ''1''")
    case True
    with assms(1) have "delete_resources E w =
             (Return False,
              (snd (choose_namespace E
                      ([LF] @ ''Enter namespace number or name containing Prometheus deployment: '')
                      ''Enter namespace containing Prometheus deployment: '' w0))
                \<lparr>terminal := terminal (snd (choose_namespace E
                      ([LF] @ ''Enter namespace number or name containing Prometheus deployment: '')
                      ''Enter namespace containing Prometheus deployment: '' w0))
                   @ [Print Error ''Namespace cannot be empty'']\<rparr>)"
      by (simp add: delete_resources_def print_defs seq_input seq_choose_namespace w0_def t0_def)
    then show ?thesis by blast
  next
    case False
    with assms have "ch = ''2''" by simp
    with assms(1) have "delete_resources E w =
             (Return False,
              (snd (choose_namespace E ([LF] @ ''Enter namespace number or name to delete: '')
                      ''Enter namespace to delete: '' w0))
                \<lparr>terminal := terminal (snd (choose_namespace E
                      ([LF] @ ''Enter namespace number or name to delete: '')
                      ''Enter namespace to delete: '' w0))
                   @ [Print Error ''Namespace cannot be empty'']\<rparr>)"
      by (simp add: delete_resources_def print_defs seq_input seq_choose_namespace w0_def t0_def)
    then show ?thesis by blast
  qed
  then obtain p1 p2 where r: "delete_resources E w =
             (Return False,
              (snd (choose_namespace E p1 p2 w0))
                \<lparr>terminal := terminal (snd (choose_namespace E p1 p2 w0))
                   @ [Print Error ''Namespace cannot be empty'']\<rparr>)" by blast
  have "commands_shown t0 = []" by (simp add: t0_def)
  with refused_after_compose [OF t c namespace_refused [OF i0, of E p1 p2]]
  show ?thesis using r by simp
qed


lemma deploy_namespace_refused:
  assumes "inputs w = [] # rest"
  shows "fst (deploy_namespace E w) = Return False
         \<and> refused_after ''Namespace cannot be empty'' [GET_NAMESPACES] rest w
             (snd (deploy_namespace E w))"
proof -
  define p1 where "p1 = [LF] @ ''Enter namespace number or name for Prometheus deployment: ''"
  have r: "deploy_namespace E w =
             (Return False,
              (snd (choose_namespace E p1 ''Enter namespace for Prometheus deployment: '' w))
                \<lparr>terminal := terminal (snd (choose_namespace E p1
                      ''Enter namespace for Prometheus deployment: '' w))
                   @ [Print Error ''Namespace cannot be empty'']\<rparr>)"
    using assms by (simp add: deploy_namespace_def print_defs seq_choose_namespace p1_def)
  show ?thesis
    using namespace_refused [OF assms, of E p1 "''Enter namespace for Prometheus deployment: ''"]
    by (simp add: r)
qed

lemma deploy_repositories_refused:
  assumes "inputs w = [] # rest"
  shows "fst (deploy_repositories E w) = Return False
         \<and> ((inputs (snd (deploy_repositories E w)) = [] # rest
              \<and> (cmds (snd (deploy_repositories E w)) = cmds w @ [REPO_ADD]
                   \<or> cmds (snd (deploy_repositories E w)) = cmds w @ [REPO_ADD, REPO_UPDATE]))
             \<or> refused_after ''Namespace cannot be empty''
                  [REPO_ADD, REPO_UPDATE, GET_NAMESPACES] rest w
                  (snd (deploy_repositories E w)))"
proof -
  define w1 where "w1 = run_world E REPO_ADD True w"
  define w2 where "w2 = run_world E REPO_UPDATE True w1"
  define t0 where "t0 = Print Info (''Running: '' @ REPO_ADD)
     # run_report (sh E (cmds w) REPO_ADD) True
     @ Print Info (''Running: '' @ REPO_UPDATE) # run_report (sh E (cmds w1) REPO_UPDATE) True"
  consider (a) "\<not> run_ok E REPO_ADD w"
    | (b) "run_ok E REPO_ADD w" "\<not> run_ok E REPO_UPDATE w1"
    | (c) "run_ok E REPO_ADD w" "run_ok E REPO_UPDATE w1" by blast
  then show ?thesis
  proof cases
    case a
    then show ?thesis using assms
      by (simp add: deploy_repositories_def print_defs case_prod_beta)
  next
    case b
    then show ?thesis using assms
      by (simp add: deploy_repositories_def print_defs case_prod_beta w1_def)
  next
    case c
    then have r: "deploy_repositories E w = deploy_namespace E w2"
      by (simp add: deploy_repositories_def print_defs case_prod_beta w1_def w2_def)
    have i2: "inputs w2 = [] # rest" using assms by (simp add: w2_def w1_def)
    have t: "terminal w2 = terminal w @ t0"
      by (simp add: w2_def w1_def t0_def terminal_run_world)
    have s: "commands_shown t0 = [REPO_ADD, REPO_UPDATE]" by (simp add: t0_def)
    have c2: "cmds w2 = cmds w @ commands_shown t0" by (simp add: s w2_def w1_def)
    from deploy_namespace_refused [OF i2, of E]
      refused_after_compose [OF t c2, of "''Namespace cannot be empty''" "[GET_NAMESPACES]" rest
        "snd (deploy_namespace E w2)"]
    show ?thesis by (simp add: r s)
  qed
qed


lemma deploy_prometheus_refused:
  assumes "inputs w = [] # rest"
  shows "fst (deploy_prometheus E w) = Return False
         \<and> ((inputs (snd (deploy_prometheus E w)) = [] # rest
              \<and> (\<exists>cs. cmds (snd (deploy_prometheus E w)) = cmds w @ cs
                     \<and> set cs \<subseteq> {HELM_VERSION, INSTALL_HELM, REPO_ADD, REPO_UPDATE}))
             \<or> refused_after ''Namespace cannot be empty''
                  [HELM_VERSION, REPO_ADD, REPO_UPDATE, GET_NAMESPACES] rest w
                  (snd (deploy_prometheus E w))
             \<or> refused_after ''Namespace cannot be empty''
                  [HELM_VERSION, INSTALL_HELM, REPO_ADD, REPO_UPDATE, GET_NAMESPACES] rest w
                  (snd (deploy_prometheus E w)))"
proof -
  define t1 where "t1 = Print Header ''Deploying Prometheus''
     # Print Info (''Running: '' @ HELM_VERSION) # run_report (sh E (cmds w) HELM_VERSION) False"
  define w1 where "w1 = run_world E HELM_VERSION False
                 (w\<lparr>terminal := terminal w @ [Print Header ''Deploying Prometheus'']\<rparr>)"
  define w2 where "w2 = run_world E INSTALL_HELM True
                    (w1\<lparr>terminal := terminal w1
                         @ [Print Warning ''Helm is not installed. Installing Helm...'']\<rparr>)"
  define w3 where
    "w3 = w2\<lparr>terminal := terminal w2 @ [Print Success ''Helm installed successfully'']\<rparr>"
  define t3 where "t3 = t1 @ Print Warning ''Helm is not installed. Installing Helm...''
     # Print Info (''Running: '' @ INSTALL_HELM) # run_report (sh E (cmds w1) INSTALL_HELM) True
     @ [Print Success ''Helm installed successfully'']"
  have i1: "inputs w1 = [] # rest" and c1: "cmds w1 = cmds w @ [HELM_VERSION]"
    and tw1: "terminal w1 = terminal w @ t1"
    using assms by (simp_all add: w1_def t1_def terminal_run_world)
  have s1: "commands_shown t1 = [HELM_VERSION]" by (simp add: t1_def)
  have i3: "inputs w3 = [] # rest" and c3: "cmds w3 = cmds w @ [HELM_VERSION, INSTALL_HELM]"
    and tw3: "terminal w3 = terminal w @ t3"
    using i1 c1 tw1 by (simp_all add: w3_def w2_def t3_def terminal_run_world)
  have s3: "commands_shown t3 = [HELM_VERSION, INSTALL_HELM]" by (simp add: t3_def s1)
  have i2: "inputs w2 = [] # rest" and c2: "cmds w2 = cmds w @ [HELM_VERSION, INSTALL_HELM]"
    using i1 c1 by (simp_all add: w2_def)
  consider (a) "deploy_prometheus E w = deploy_repositories E w1"
    | (b) "deploy_prometheus E w = deploy_repositories E w3"
    | (c) "deploy_prometheus E w =
             (Return False, w2\<lparr>terminal := terminal w2 @ [Print Error ''Failed to install Helm'']\<rparr>)"
    unfolding deploy_prometheus_unfold [of E w] Let_def w1_def [symmetric] w2_def [symmetric]
      w3_def [symmetric]
    by (cases "run_ok E HELM_VERSION w"; cases "run_ok E INSTALL_HELM w1") simp_all
  then show ?thesis
  proof cases
    case a
    have k: "cmds w1 = cmds w @ commands_shown t1" using c1 s1 by simp
    from deploy_repositories_refused [OF i1, of E]
    consider (x) "fst (deploy_repositories E w1) = Return False"
        "inputs (snd (deploy_repositories E w1)) = [] # rest"
        "cmds (snd (deploy_repositories E w1)) = cmds w1 @ [REPO_ADD]
         \<or> cmds (snd (deploy_repositories E w1)) = cmds w1 @ [REPO_ADD, REPO_UPDATE]"
      | (y) "fst (deploy_repositories E w1) = Return False"
        "refused_after ''Namespace cannot be empty''
           [REPO_ADD, REPO_UPDATE, GET_NAMESPACES] rest w1 (snd (deploy_repositories E w1))"
      by blast
    then show ?thesis
    proof cases
      case x
      from x(3) have "\<exists>cs. cmds (snd (deploy_repositories E w1)) = cmds w @ cs
                     \<and> set cs \<subseteq> {HELM_VERSION, INSTALL_HELM, REPO_ADD, REPO_UPDATE}"
      proof
        assume "cmds (snd (deploy_repositories E w1)) = cmds w1 @ [REPO_ADD]"
        then have "cmds (snd (deploy_repositories E w1)) = cmds w @ [HELM_VERSION, REPO_ADD]"
          "set [HELM_VERSION, REPO_ADD] \<subseteq> {HELM_VERSION, INSTALL_HELM, REPO_ADD, REPO_UPDATE}"
          using c1 by simp_all
        then show ?thesis by blast
      next
        assume "cmds (snd (deploy_repositories E w1)) = cmds w1 @ [REPO_ADD, REPO_UPDATE]"
        then have "cmds (snd (deploy_repositories E w1))
                     = cmds w @ [HELM_VERSION, REPO_ADD, REPO_UPDATE]"
          "set [HELM_VERSION, REPO_ADD, REPO_UPDATE]
             \<subseteq> {HELM_VERSION, INSTALL_HELM, REPO_ADD, REPO_UPDATE}"
          using c1 by simp_all
        then show ?thesis by blast
      qed
      with x(1,2) a show ?thesis by simp
    next
      case y
      from refused_after_compose [OF tw1 k y(2)] y(1) a s1 show ?thesis by simp
    qed
  next
    case b
    have k: "cmds w3 = cmds w @ commands_shown t3" using c3 s3 by simp
    from deploy_repositories_refused [OF i3, of E]
    consider (x) "fst (deploy_repositories E w3) = Return False"
        "inputs (snd (deploy_repositories E w3)) = [] # rest"
        "cmds (snd (deploy_repositories E w3)) = cmds w3 @ [REPO_ADD]
         \<or> cmds (snd (deploy_repositories E w3)) = cmds w3 @ [REPO_ADD, REPO_UPDATE]"
      | (y) "fst (deploy_repositories E w3) = Return False"
        "refused_after ''Namespace cannot be empty''
           [REPO_ADD, REPO_UPDATE, GET_NAMESPACES] rest w3 (snd (deploy_repositories E w3))"
      by blast
    then show ?thesis
    proof cases
      case x
      from x(3) have "\<exists>cs. cmds (snd (deploy_repositories E w3)) = cmds w @ cs
                     \<and> set cs \<subseteq> {HELM_VERSION, INSTALL_HELM, REPO_ADD, REPO_UPDATE}"
      proof
        assume "cmds (snd (deploy_repositories E w3)) = cmds w3 @ [REPO_ADD]"
        then have "cmds (snd (deploy_repositories E w3))
                     = cmds w @ [HELM_VERSION, INSTALL_HELM, REPO_ADD]"
          "set [HELM_VERSION, INSTALL_HELM, REPO_ADD]
             \<subseteq> {HELM_VERSION, INSTALL_HELM, REPO_ADD, REPO_UPDATE}"
          using c3 by simp_all
        then show ?thesis by blast
      next
        assume "cmds (snd (deploy_repositories E w3)) = cmds w3 @ [REPO_ADD, REPO_UPDATE]"
        then have "cmds (snd (deploy_repositories E w3))
                     = cmds w @ [HELM_VERSION, INSTALL_HELM, REPO_ADD, REPO_UPDATE]"
          "set [HELM_VERSION, INSTALL_HELM, REPO_ADD, REPO_UPDATE]
             \<subseteq> {HELM_VERSION, INSTALL_HELM, REPO_ADD, REPO_UPDATE}"
          using c3 by simp_all
        then show ?thesis by blast
      qed
      with x(1,2) b show ?thesis by simp
    next
      case y
      from refused_after_compose [OF tw3 k y(2)] y(1) b s3 show ?thesis by simp
    qed
  next
    case c
    have "cmds w2 = cmds w @ [HELM_VERSION, INSTALL_HELM]"
      "set [HELM_VERSION, INSTALL_HELM]
         \<subseteq> {HELM_VERSION, INSTALL_HELM, REPO_ADD, REPO_UPDATE}"
      using c2 by simp_all
    then have "\<exists>cs. cmds w2 = cmds w @ cs
                     \<and> set cs \<subseteq> {HELM_VERSION, INSTALL_HELM, REPO_ADD, REPO_UPDATE}"
      by blast
    with c i2 show ?thesis by simp
  qed
qed

lemma deploy_empty_run:
  "cmds (snd (deploy_prometheus (env_of (\<lambda>_ _. Completed ''default'')) (world_of [[]])))
     = [HELM_VERSION, REPO_ADD, REPO_UPDATE, GET_NAMESPACES]
   \<and> inputs (snd (deploy_prometheus (env_of (\<lambda>_ _. Completed ''default'')) (world_of [[]])))
       = []"
  by (simp add: deploy_prometheus_unfold Let_def deploy_repositories_def deploy_namespace_def
        print_defs seq_choose_namespace case_prod_beta world_of_def env_of_def run_value_def
        run_result_def)

lemma prelude_distinct: "REPO_ADD \<noteq> INSTALL_HELM"
  by (simp add: REPO_ADD_def INSTALL_HELM_def)

text \<open>
  C1, as the code has it. An empty answer to a required field makes the handler return
  False, and no command is run after the answer has been read: the prompt that was
  answered and the message of refusal are the last two lines on the terminal, and every
  command that was run is announced before them (\<open>refused_after\<close>). In the
  create-namespace handler (empty username; empty purpose) no command is run at all. The
  status handler and both paths of the delete handler have by then run the listing of
  the namespaces, and nothing else. The deploy handler either ends before it asks (a
  preparation command failed; the answer is left unread and only preparation commands
  were run), or it has run its preparation (the helm probe, the helm installer if the
  probe failed, the two repository commands) and the listing, in this order, before the
  prompt.
\<close>

theorem empty_required_field:
  "(inputs w = [] # rest \<longrightarrow>
      fst (create_namespace E w) = Return False
      \<and> refused_after ''Username cannot be empty'' [] rest w (snd (create_namespace E w)))
   \<and> (inputs w = u # [] # rest \<and> u \<noteq> [] \<longrightarrow>
      fst (create_namespace E w) = Return False
      \<and> refused_after ''Purpose cannot be empty'' [] rest w (snd (create_namespace E w)))
   \<and> (inputs w = [] # rest \<longrightarrow>
      fst (check_resource_status E w) = Return False
      \<and> refused_after ''Namespace cannot be empty'' [GET_NAMESPACES] rest w
            (snd (check_resource_status E w)))
   \<and> (inputs w = ch # [] # rest \<and> (ch = ''1'' \<or> ch = ''2'') \<longrightarrow>
      fst (delete_resources E w) = Return False
      \<and> refused_after ''Namespace cannot be empty'' [GET_NAMESPACES] rest w
            (snd (delete_resources E w)))
   \<and> (inputs w = [] # rest \<longrightarrow>
      fst (deploy_prometheus E w) = Return False
      \<and> ((inputs (snd (deploy_prometheus E w)) = [] # rest
           \<and> (\<exists>cs. cmds (snd (deploy_prometheus E w)) = cmds w @ cs
                  \<and> set cs \<subseteq> {HELM_VERSION, INSTALL_HELM, REPO_ADD, REPO_UPDATE}))
          \<or> refused_after ''Namespace cannot be empty''
               [HELM_VERSION, REPO_ADD, REPO_UPDATE, GET_NAMESPACES] rest w
               (snd (deploy_prometheus E w))
          \<or> refused_after ''Namespace cannot be empty''
               [HELM_VERSION, INSTALL_HELM, REPO_ADD, REPO_UPDATE, GET_NAMESPACES] rest w
               (snd (deploy_prometheus E w))))"
  using create_refused_username [of w rest E] create_refused_purpose [of w u rest E]
    status_refused [of w rest E] delete_refused [of w ch rest E]
    deploy_prometheus_refused [of w rest E]
  by blast

text \<open>
  Every part at an input: an empty username, an empty purpose, and an empty namespace in
  the status handler, on both paths of the delete handler and in the deploy handler
  (where all commands succeed).
\<close>

theorem empty_required_field_witness:
  "refused_after ''Username cannot be empty'' [] [] (world_of [[]])
     (snd (create_namespace (env_of (\<lambda>_ _. Completed ''default'')) (world_of [[]])))
   \<and> refused_after ''Purpose cannot be empty'' [] [] (world_of [''azni'', []])
       (snd (create_namespace (env_of (\<lambda>_ _. Completed ''default''))
               (world_of [''azni'', []])))
   \<and> refused_after ''Namespace cannot be empty'' [GET_NAMESPACES] [] (world_of [[]])
       (snd (check_resource_status (env_of (\<lambda>_ _. Completed ''default'')) (world_of [[]])))
   \<and> refused_after ''Namespace cannot be empty'' [GET_NAMESPACES] [] (world_of [''1'', []])
       (snd (delete_resources (env_of (\<lambda>_ _. Completed ''default''))
               (world_of [''1'', []])))
   \<and> refused_after ''Namespace cannot be empty'' [GET_NAMESPACES] [] (world_of [''2'', []])
       (snd (delete_resources (env_of (\<lambda>_ _. Completed ''default''))
               (world_of [''2'', []])))
   \<and> refused_after ''Namespace cannot be empty''
       [HELM_VERSION, REPO_ADD, REPO_UPDATE, GET_NAMESPACES] [] (world_of [[]])
       (snd (deploy_prometheus (env_of (\<lambda>_ _. Completed ''default'')) (world_of [[]])))"
proof -
  let ?E = "env_of (\<lambda>_ _. Completed ''default'')"
  have i: "inputs (world_of [[]]) = [] # []" "inputs (world_of [''azni'', []]) = ''azni'' # [] # []"
    "inputs (world_of [''1'', []]) = ''1'' # [] # []"
    "inputs (world_of [''2'', []]) = ''2'' # [] # []"
    by (simp_all add: world_of_def)
  have d: "\<not> refused_after ''Namespace cannot be empty''
               [HELM_VERSION, INSTALL_HELM, REPO_ADD, REPO_UPDATE, GET_NAMESPACES] []
               (world_of [[]]) (snd (deploy_prometheus ?E (world_of [[]])))"
    using deploy_empty_run prelude_distinct by (simp add: refused_after_def world_of_def)
  have e: "inputs (snd (deploy_prometheus ?E (world_of [[]]))) \<noteq> [] # []"
    using deploy_empty_run by simp
  from empty_required_field [of "world_of [[]]" "[]" ?E "''azni''" "''1''"]
    empty_required_field [of "world_of [''azni'', []]" "[]" ?E "''azni''" "''1''"]
    empty_required_field [of "world_of [''1'', []]" "[]" ?E "''azni''" "''1''"]
    empty_required_field [of "world_of [''2'', []]" "[]" ?E "''azni''" "''2''"]
    i d e
  show ?thesis by simp
qed

text \<open>
  C1 as stated (no external command is run) fails in the status handler: the empty
  namespace is refused after \<open>kubectl get namespaces\<close> has been run.
\<close>

theorem status_lists_before_asking:
  "fst (check_resource_status (env_of (\<lambda>_ _. Completed ''default'')) (world_of [[]]))
     = Return False
   \<and> cmds (snd (check_resource_status (env_of (\<lambda>_ _. Completed ''default'')) (world_of [[]])))
       = [''kubectl get namespaces -o custom-columns=NAME:.metadata.name --no-headers'']"
  using status_empty_namespace [of "world_of [[]]" "[]" "env_of (\<lambda>_ _. Completed ''default'')"]
  by (simp add: world_of_def GET_NAMESPACES_def)

section \<open>The deploy handler: the release name\<close>

lemma compile_repl_plain: "BACKSLASH \<notin> set r \<Longrightarrow> compile_repl E r = Return (\<lambda>_. r)"
  by (simp add: compile_repl_def)

lemma rewrite_hostname_plain:
  "BACKSLASH \<notin> set hostname \<Longrightarrow>
   rewrite_hostname E hostname content =
     Return (re_sub match_dns
               (\<lambda>_. ''external-dns.alpha.kubernetes.io/hostname: '' @ [DQ] @ hostname @ [DQ])
               (re_sub match_hosts (\<lambda>_. ''hosts:'' @ [LF] @ ''      - '' @ hostname) content))"
  by (simp add: rewrite_hostname_def compile_repl_def)

lemma seq_ask_hostname:
  "seq (ask_hostname n) f w =
     (case inputs w of
        [] \<Rightarrow> (Raise EOFError,
               w\<lparr>terminal := terminal w
                  @ [Prompt (''Enter hostname for Prometheus ingress (default: '' @ n
                       @ ''.sctp-sandbox.com): '')]\<rparr>)
      | a # rest \<Rightarrow> f (py_or a (n @ ''.sctp-sandbox.com''))
               (w\<lparr>terminal := terminal w
                  @ [Prompt (''Enter hostname for Prometheus ingress (default: '' @ n
                       @ ''.sctp-sandbox.com): '')],
                 inputs := rest\<rparr>))"
  by (simp add: ask_hostname_def seq_input split: list.splits)

lemma seq_write_values [simp]:
  "seq (write_values c) f w = f () (w\<lparr>values_file := Some c\<rparr>)"
  by (simp add: seq_def write_values_def)

lemma prepare_values_ok:
  assumes "inputs w = a # rest"
    and "values_file w = None \<or> BACKSLASH \<notin> set (py_or a (n @ ''.sctp-sandbox.com''))"
  shows "fst (prepare_values E n w) = Return (py_or a (n @ ''.sctp-sandbox.com''))
         \<and> cmds (snd (prepare_values E n w)) = cmds w
         \<and> inputs (snd (prepare_values E n w)) = rest"
proof (cases "values_file w")
  case None
  with assms(1) show ?thesis
    by (simp add: prepare_values_def print_defs seq_ask_hostname)
next
  case (Some raw)
  with assms have "BACKSLASH \<notin> set (py_or a (n @ ''.sctp-sandbox.com''))" by simp
  with Some assms(1) show ?thesis
    by (simp add: prepare_values_def print_defs seq_ask_hostname rewrite_hostname_plain)
qed


lemma prepare_values_cmds [simp]: "cmds (snd (prepare_values E n w)) = cmds w"
  by (cases "values_file w"; cases "inputs w")
     (simp_all add: prepare_values_def print_defs seq_ask_hostname split: result.splits)

lemma seq_prepare_values:
  "values_file w = None \<or> BACKSLASH \<notin> set (py_or (hd (inputs w)) (n @ ''.sctp-sandbox.com'')) \<Longrightarrow>
   inputs w \<noteq> [] \<Longrightarrow>
   seq (prepare_values E n) f w =
     f (py_or (hd (inputs w)) (n @ ''.sctp-sandbox.com'')) (snd (prepare_values E n w))"
  using prepare_values_ok [of w "hd (inputs w)" "tl (inputs w)" n E]
  by (simp add: seq_split [of "prepare_values E n"])

lemma deploy_release_cmds:
  assumes "inputs w = r # a # rest"
    and "values_file w = None \<or> BACKSLASH \<notin> set (py_or a (n @ ''.sctp-sandbox.com''))"
  shows "\<exists>more. cmds (snd (deploy_release E n w)) =
           cmds w @ [UPGRADE (py_or r (n @ ''-prom'')) n] @ more"
  using assms
  by (simp add: deploy_release_def print_defs seq_input Let_def seq_prepare_values
        case_prod_beta UPGRADE_def VALUES_FILE_def)

text \<open>
  C7. From the point where the namespace \<open>n\<close> is known, the deploy handler is
  \<open>deploy_release E n\<close> (lines 175-260), whichever way the namespace was chosen. When
  the release-name prompt is answered with the empty string, the release that
  \<open>helm upgrade --install\<close> installs is \<open>n-prom\<close>; for the namespace \<open>team-prom\<close> it is
  \<open>team-prom-prom\<close>. (The install command is reached when the answer to the hostname
  prompt is there and the values file is created, or rewritten with a hostname free of
  backslashes.)
\<close>

theorem release_name_default:
  assumes "inputs w = [] # a # rest"
    and "values_file w = None \<or> BACKSLASH \<notin> set (py_or a (n @ ''.sctp-sandbox.com''))"
  shows "\<exists>more. cmds (snd (deploy_release E n w)) =
           cmds w
           @ [''helm upgrade --install '' @ n @ ''-prom''
              @ '' prometheus-community/prometheus --version 27.5.1''
              @ '' --values prometheus-values.yaml --namespace '' @ n]
           @ more"
  using deploy_release_cmds [OF assms, of E]
  by (simp add: UPGRADE_def py_or_def)

text \<open>The instance of the specification: \<open>team-prom\<close> gives \<open>team-prom-prom\<close>.\<close>

theorem release_name_default_witness:
  "\<exists>more. cmds (snd (deploy_release (env_of (\<lambda>_ _. Completed [])) ''team-prom''
                      (world_of [[], []]))) =
     [''helm upgrade --install team-prom-prom prometheus-community/prometheus --version 27.5.1 --values prometheus-values.yaml --namespace team-prom'']
     @ more"
  using release_name_default [of "world_of [[], []]" "[]" "[]" "''team-prom''"
    "env_of (\<lambda>_ _. Completed [])"]
  by (simp add: world_of_def)

text \<open>The same run through the whole handler, every command succeeding.\<close>

lemma not_isdigit_team_prom: "\<not> isdigit ''team-prom''"
  by (simp add: isdigit_def isdigit_char_def)

lemma deploy_prometheus_example:
  "cmds (snd (deploy_prometheus (env_of (\<lambda>_ _. Completed ''ok''))
                (world_of [''team-prom'', [], []]))) =
     [''helm version'',
      ''helm repo add prometheus-community https://prometheus-community.github.io/helm-charts'',
      ''helm repo update'',
      ''kubectl get namespaces -o custom-columns=NAME:.metadata.name --no-headers'',
      ''helm upgrade --install team-prom-prom prometheus-community/prometheus --version 27.5.1 --values prometheus-values.yaml --namespace team-prom'',
      ''kubectl get pods -n team-prom'',
      ''kubectl get svc -n team-prom'',
      ''kubectl get ingress -n team-prom'']"
  by (simp add: deploy_prometheus_unfold Let_def deploy_repositories_def deploy_namespace_def
        deploy_release_def print_defs seq_input seq_choose_namespace seq_prepare_values
        case_prod_beta world_of_def env_of_def run_value_def run_result_def
        resolved_not_digit not_isdigit_team_prom HELM_VERSION_def REPO_ADD_def REPO_UPDATE_def
        GET_NAMESPACES_def VALUES_FILE_def py_or_def)

section \<open>The rewrite of the values file\<close>



















end
